theory Spec2Isabelle
  imports Main
begin

section \<open>Python values used by the three modules\<close>

text \<open>
  A Python \<open>str\<close> is modelled as a \<open>string\<close> whose characters are the code points
  0..255 (Latin-1), one \<open>char\<close> per code point; every literal of the source lies in that
  range (the accented French letters are written \<open>CHR 0xE9\<close> and so on).  On this range
  the decimal digits of \<open>\d\<close>, \<open>int()\<close> and \<open>str.isdecimal\<close> are exactly \<open>0..9\<close>, and
  the white space of \<open>\s\<close> and \<open>str.strip\<close> is the set listed in \<open>is_space\<close>.
  Python integers are unbounded, but \<open>int()\<close> refuses a string of more than
  \<open>sys.int_info.default_max_str_digits\<close> digits with \<open>ValueError\<close>; the interpreter is
  taken with that default of 4300 digits.
\<close>

datatype py_exception = PyExc (exc_class: string) (exc_str: string)

definition is_decimal :: "char \<Rightarrow> bool" where
  "is_decimal c \<longleftrightarrow> c \<in> set ''0123456789''"

definition is_space :: "char \<Rightarrow> bool" where
  "is_space c \<longleftrightarrow>
     c \<in> set [CHR 0x09, CHR 0x0A, CHR 0x0B, CHR 0x0C, CHR 0x0D, CHR 0x1C, CHR 0x1D,
              CHR 0x1E, CHR 0x1F, CHR 0x20, CHR 0x85, CHR 0xA0]"

definition is_ascii_letter :: "char \<Rightarrow> bool" where
  "is_ascii_letter c \<longleftrightarrow>
     c \<in> set ''ABCDEFGHIJKLMNOPQRSTUVWXYZabcdefghijklmnopqrstuvwxyz''"

definition ascii_lower :: "char \<Rightarrow> char" where
  "ascii_lower c =
     (case map_of (zip ''ABCDEFGHIJKLMNOPQRSTUVWXYZ'' ''abcdefghijklmnopqrstuvwxyz'') c of
        None \<Rightarrow> c | Some l \<Rightarrow> l)"

definition ascii_upper :: "char \<Rightarrow> char" where
  "ascii_upper c =
     (case map_of (zip ''abcdefghijklmnopqrstuvwxyz'' ''ABCDEFGHIJKLMNOPQRSTUVWXYZ'') c of
        None \<Rightarrow> c | Some u \<Rightarrow> u)"

text \<open>\<open>str.strip()\<close>: white space removed at both ends.\<close>

definition strip :: "string \<Rightarrow> string" where
  "strip s = rev (dropWhile is_space (rev (dropWhile is_space s)))"

text \<open>
  \<open>str.title()\<close>: a cased character that follows a cased character is lowered, any
  other cased character is raised.  The source applies it to matches of \<open>type_pattern\<close>
  only, which are ASCII letters, so the cased characters modelled are the ASCII letters.
\<close>

fun title_from :: "bool \<Rightarrow> string \<Rightarrow> string" where
  "title_from previous_is_cased [] = []"
| "title_from previous_is_cased (c # cs) =
     (if is_ascii_letter c
      then (if previous_is_cased then ascii_lower c else ascii_upper c) # title_from True cs
      else c # title_from False cs)"

definition title :: "string \<Rightarrow> string" where
  "title s = title_from False s"

definition endswith :: "string \<Rightarrow> string \<Rightarrow> bool" where
  "endswith s suffix \<longleftrightarrow>
     length suffix \<le> length s \<and> drop (length s - length suffix) s = suffix"

text \<open>\<open>s.replace(old, new)\<close> for one-character \<open>old\<close> and \<open>new\<close>.\<close>

definition replace_char :: "char \<Rightarrow> char \<Rightarrow> string \<Rightarrow> string" where
  "replace_char old new s = map (\<lambda>c. if c = old then new else c) s"

definition decimal_value :: "char \<Rightarrow> nat" where
  "decimal_value c = of_char c - 48"

definition digit_char :: "nat \<Rightarrow> char" where
  "digit_char d = ''0123456789'' ! d"

text \<open>\<open>str(n)\<close> and \<open>f"{n}"\<close> for a non-negative integer.\<close>

fun str_of_nat :: "nat \<Rightarrow> string" where
  "str_of_nat n =
     (if n < 10 then [digit_char n] else str_of_nat (n div 10) @ [digit_char (n mod 10)])"

declare str_of_nat.simps [simp del]

definition digits_to_nat :: "string \<Rightarrow> nat" where
  "digits_to_nat ds = foldl (\<lambda>a c. 10 * a + decimal_value c) 0 ds"

text \<open>
  \<open>int(s)\<close> as the source calls it: on the output of \<open>re.sub(r'[^\d]', '', _)\<close>, a
  string of decimal digits.  A string of more digits than the limit raises
  \<open>ValueError\<close>, leading zeros counted; any argument that is not a string of digits is
  answered with \<open>ValueError\<close> as well.  A number that \<open>int()\<close> returned has at most as
  many digits as the limit, so formatting it again never raises.
\<close>

definition int_max_str_digits :: nat where
  "int_max_str_digits = 4300"

definition int_limit_error :: "nat \<Rightarrow> py_exception" where
  "int_limit_error n =
     PyExc ''ValueError''
       (''Exceeds the limit ('' @ str_of_nat int_max_str_digits
          @ '' digits) for integer string conversion: value has '' @ str_of_nat n
          @ '' digits; use sys.set_int_max_str_digits() to increase the limit'')"

definition py_int :: "string \<Rightarrow> py_exception + nat" where
  "py_int s =
     (if s \<noteq> [] \<and> list_all is_decimal s
      then (if length s > int_max_str_digits then Inl (int_limit_error (length s))
            else Inr (digits_to_nat s))
      else Inl (PyExc ''ValueError'' ''invalid literal for int() with base 10''))"

text \<open>\<open>f"{n:,}"\<close>: the decimal digits with a comma before every block of three.\<close>

definition pad3 :: "nat \<Rightarrow> string" where
  "pad3 m = [digit_char (m div 100), digit_char (m div 10 mod 10), digit_char (m mod 10)]"

fun format_comma :: "nat \<Rightarrow> string" where
  "format_comma n =
     (if n < 1000 then str_of_nat n
      else format_comma (n div 1000) @ '','' @ pad3 (n mod 1000))"

declare format_comma.simps [simp del]

text \<open>Accented letters of the source's literals.\<close>

definition a_grave :: string where "a_grave = [CHR 0xE0]"
definition e_grave :: string where "e_grave = [CHR 0xE8]"
definition e_acute :: string where "e_acute = [CHR 0xE9]"

lemmas accents = a_grave_def e_grave_def e_acute_def


section \<open>The regular expressions of \<open>pdf_extractor.py\<close>\<close>

text \<open>
  \<open>re.findall\<close> is modelled by a backtracking matcher for the constructs the three
  patterns use.  \<open>rmatch r s c\<close> lists, in the order in which Python's engine tries
  them, the ways \<open>r\<close> can match a prefix of \<open>s\<close>: each is the rest of the input with the
  groups captured so far.  Repetition is greedy.  The first element of the list is the
  match Python reports.
\<close>

type_synonym captures = "nat \<Rightarrow> string option"

datatype regex =
    Eps
  | Cls "char \<Rightarrow> bool"
  | Seq regex regex
  | Alt regex regex
  | Rep nat "nat option" regex
  | Grp nat regex

fun regex_size :: "regex \<Rightarrow> nat" where
  "regex_size Eps = 0"
| "regex_size (Cls p) = 0"
| "regex_size (Seq a b) = Suc (regex_size a + regex_size b)"
| "regex_size (Alt a b) = Suc (regex_size a + regex_size b)"
| "regex_size (Rep lo hi a) = Suc (regex_size a)"
| "regex_size (Grp n a) = Suc (regex_size a)"

function rmatch :: "regex \<Rightarrow> string \<Rightarrow> captures \<Rightarrow> (string \<times> captures) list" where
  "rmatch Eps s c = [(s, c)]"
| "rmatch (Cls p) s c = (case s of [] \<Rightarrow> [] | x # xs \<Rightarrow> if p x then [(xs, c)] else [])"
| "rmatch (Seq a b) s c = concat (map (\<lambda>(s', c'). rmatch b s' c') (rmatch a s c))"
| "rmatch (Alt a b) s c = rmatch a s c @ rmatch b s c"
| "rmatch (Grp n a) s c =
     map (\<lambda>(s', c'). (s', c'(n \<mapsto> take (length s - length s') s))) (rmatch a s c)"
| "rmatch (Rep lo hi a) s c =
     (if hi = Some 0 then []
      else concat (map (\<lambda>(s', c').
             if length s' < length s
             then rmatch (Rep (lo - 1) (map_option (\<lambda>h. h - 1) hi) a) s' c'
             else [])
           (rmatch a s c)))
     @ (if lo = 0 then [(s, c)] else [])"
  by pat_completeness auto
termination
  by (relation "measures [\<lambda>(r, s, c). regex_size r, \<lambda>(r, s, c). length s]") auto

text \<open>
  \<open>re.findall\<close>: the leftmost match from each position, the search resuming where the
  match ended (one character further after an empty match).
\<close>

function findall :: "regex \<Rightarrow> string \<Rightarrow> captures list" where
  "findall r s =
     (case rmatch r s Map.empty of
        [] \<Rightarrow> (case s of [] \<Rightarrow> [] | x # t \<Rightarrow> findall r t)
      | (s', c) # alternatives \<Rightarrow>
          if length s' < length s then c # findall r s'
          else (case s of [] \<Rightarrow> [c] | x # t \<Rightarrow> c # findall r t))"
  by pat_completeness auto
termination
  by (relation "measure (\<lambda>(r, s). length s)") auto

declare findall.simps [simp del]

text \<open>A group that took no part in the match reads as the empty string.\<close>

definition group :: "captures \<Rightarrow> nat \<Rightarrow> string" where
  "group c n = (case c n of None \<Rightarrow> [] | Some v \<Rightarrow> v)"

definition chr_ci :: "char \<Rightarrow> regex" where
  "chr_ci x = Cls (\<lambda>c. ascii_lower c = ascii_lower x)"

definition lit_ci :: "string \<Rightarrow> regex" where
  "lit_ci w = foldr (\<lambda>x r. Seq (chr_ci x) r) w Eps"

fun alternation :: "regex list \<Rightarrow> regex" where
  "alternation [] = Cls (\<lambda>c. False)"
| "alternation [r] = r"
| "alternation (r # rs) = Alt r (alternation rs)"

definition opt :: "regex \<Rightarrow> regex" where
  "opt r = Rep 0 (Some 1) r"

definition star :: "regex \<Rightarrow> regex" where
  "star r = Rep 0 None r"

definition plus :: "regex \<Rightarrow> regex" where
  "plus r = Rep 1 None r"

text \<open>The class \<open>[A-Za-z\s\-\']\<close>.\<close>

definition name_class :: "char \<Rightarrow> bool" where
  "name_class c \<longleftrightarrow> is_ascii_letter c \<or> is_space c \<or> c = CHR ''-'' \<or> c = CHR 0x27"

text \<open>
  \<^verbatim>\<open>(\d+[A-Za-z]?\s+(?:rue|avenue|boulevard|chemin|place)\s+[A-Za-z\s\-\']+),?\s*([A-Za-z\s\-\']+)\<close>
  with \<open>re.IGNORECASE\<close>.
\<close>

definition address_pattern :: regex where
  "address_pattern =
     Seq (Grp 1
            (Seq (plus (Cls is_decimal))
            (Seq (opt (Cls is_ascii_letter))
            (Seq (plus (Cls is_space))
            (Seq (alternation
                    (map lit_ci [''rue'', ''avenue'', ''boulevard'', ''chemin'', ''place'']))
            (Seq (plus (Cls is_space))
                 (plus (Cls name_class))))))))
    (Seq (opt (Cls (\<lambda>c. c = CHR '','')))
    (Seq (star (Cls is_space))
         (Grp 2 (plus (Cls name_class)))))"

text \<open>\<^verbatim>\<open>\$?\s*(\d{1,3}(?:[\s,]\d{3})*)\s*\$?\<close>\<close>

definition price_pattern :: regex where
  "price_pattern =
     Seq (opt (Cls (\<lambda>c. c = CHR ''$'')))
    (Seq (star (Cls is_space))
    (Seq (Grp 1
            (Seq (Rep 1 (Some 3) (Cls is_decimal))
                 (star (Seq (Cls (\<lambda>c. is_space c \<or> c = CHR '',''))
                            (Rep 3 (Some 3) (Cls is_decimal))))))
    (Seq (star (Cls is_space))
         (opt (Cls (\<lambda>c. c = CHR ''$''))))))"

text \<open>\<^verbatim>\<open>(condo|maison|duplex|triplex|cottage|bungalow|appartement)\<close> with \<open>re.IGNORECASE\<close>.\<close>

definition type_pattern :: regex where
  "type_pattern =
     Grp 1 (alternation (map lit_ci
       [''condo'', ''maison'', ''duplex'', ''triplex'', ''cottage'', ''bungalow'',
        ''appartement'']))"

definition find_addresses :: "string \<Rightarrow> (string \<times> string) list" where
  "find_addresses full_text = map (\<lambda>c. (group c 1, group c 2)) (findall address_pattern full_text)"

definition find_prices :: "string \<Rightarrow> string list" where
  "find_prices full_text = map (\<lambda>c. group c 1) (findall price_pattern full_text)"

definition find_types :: "string \<Rightarrow> string list" where
  "find_types full_text = map (\<lambda>c. group c 1) (findall type_pattern full_text)"

lemmas regex_defs = find_addresses_def find_prices_def find_types_def
  address_pattern_def price_pattern_def type_pattern_def opt_def star_def plus_def
  lit_ci_def chr_ci_def name_class_def is_ascii_letter_def is_space_def is_decimal_def
  ascii_lower_def group_def


section \<open>\<open>core/pdf_extractor.py\<close>\<close>

text \<open>
  What the PDF library answers is the input of the model.  \<open>pdfplumber.open(pdf_path)\<close>
  either raises or yields the pages of the document, and \<open>page.extract_text()\<close> either
  raises or yields the text of the page (\<open>None\<close> for a page without a text layer).
\<close>

type_synonym page = "py_exception + string option"

type_synonym pdf_source = "py_exception + page list"

text \<open>One entry of the list \<open>extract_pdf_data\<close> returns (a dict with these five keys).\<close>

record property =
  address :: string
  price :: string
  type :: string
  city :: string
  street :: string

text \<open>The loop over \<open>pdf.pages\<close>; a page whose text is \<open>None\<close> or empty adds nothing.\<close>

fun collect_text :: "page list \<Rightarrow> string \<Rightarrow> py_exception + string" where
  "collect_text [] full_text = Inr full_text"
| "collect_text (pg # pgs) full_text =
     (case pg of
        Inl e \<Rightarrow> Inl e
      | Inr None \<Rightarrow> collect_text pgs full_text
      | Inr (Some page_text) \<Rightarrow>
          if page_text = [] then collect_text pgs full_text
          else collect_text pgs (full_text @ page_text @ [CHR 0x0A]))"

text \<open>The body of \<open>for i, (street, city) in enumerate(addresses[:10])\<close>.\<close>

definition heuristic_property :: "string list \<Rightarrow> string list \<Rightarrow> nat \<times> string \<times> string \<Rightarrow> property" where
  "heuristic_property prices types = (\<lambda>(i, street_match, city_match).
     \<lparr> address = strip street_match @ '', '' @ strip city_match,
       price = (if i < length prices then prices ! i else ''N/A'') @ ''$'',
       type = (if i < length types then title (types ! i)
               else ''Propri'' @ e_acute @ ''t'' @ e_acute),
       city = strip city_match,
       street = strip street_match \<rparr>)"

definition sample_addresses :: "string list" where
  "sample_addresses =
     [''Adresse extraite du PDF'',
      ''Propri'' @ e_acute @ ''t'' @ e_acute @ '' identifi'' @ e_acute @ ''e'',
      ''Bien immobilier trouv'' @ e_acute]"

definition default_sample_prices :: "string list" where
  "default_sample_prices =
     [''Prix '' @ a_grave @ '' d'' @ e_acute @ ''terminer'', ''Voir document'', ''Contact requis'']"

text \<open>
  The loop \<open>for price in prices[:3]\<close>: a match with at least four digits is reformatted
  with spaces between the thousands and a \<open>$\<close> directly behind.
\<close>

fun sample_prices_loop :: "string list \<Rightarrow> string list \<Rightarrow> py_exception + string list" where
  "sample_prices_loop [] sample_prices = Inr sample_prices"
| "sample_prices_loop (p # ps) sample_prices =
     (let clean_price = filter is_decimal p in
      if clean_price \<noteq> [] \<and> length clean_price \<ge> 4
      then (case py_int clean_price of
              Inl e \<Rightarrow> Inl e
            | Inr n \<Rightarrow>
                sample_prices_loop ps
                  (sample_prices @ [replace_char CHR '','' CHR '' '' (format_comma n @ ''$'')]))
      else sample_prices_loop ps sample_prices)"

definition placeholder_property :: "string list \<Rightarrow> nat \<Rightarrow> property" where
  "placeholder_property sample_prices i =
     \<lparr> address = sample_addresses ! i,
       price = (if i < length sample_prices then sample_prices ! i else ''Prix N/A''),
       type = ''Propri'' @ e_acute @ ''t'' @ e_acute @ '' extraite'',
       city = ''Ville d'' @ e_acute @ ''tect'' @ e_acute @ ''e'',
       street = ''Rue '' @ str_of_nat (i + 1) \<rparr>"

text \<open>
  The body of the \<open>try\<close> block.  Everything that can raise in it does so while
  \<open>properties\<close> is still empty, so an exception leaves no partial list behind.
\<close>

definition extract_body :: "pdf_source \<Rightarrow> py_exception + property list" where
  "extract_body src =
     (case src of
        Inl e \<Rightarrow> Inl e
      | Inr pgs \<Rightarrow>
          (case collect_text pgs [] of
             Inl e \<Rightarrow> Inl e
           | Inr full_text \<Rightarrow>
               let addresses = find_addresses full_text;
                   prices = find_prices full_text;
                   types = find_types full_text;
                   props = map (heuristic_property prices types)
                             (enumerate 0 (take 10 addresses))
               in if props \<noteq> [] then Inr props
                  else
                    (case sample_prices_loop (take 3 prices) [] of
                       Inl e \<Rightarrow> Inl e
                     | Inr found \<Rightarrow>
                         let sample_prices =
                               (if found = [] then default_sample_prices else found)
                         in Inr (map (placeholder_property sample_prices)
                                   [0..<min (length sample_addresses) 3]))))"

text \<open>The entry the \<open>except Exception\<close> handler appends.\<close>

definition error_property :: "py_exception \<Rightarrow> property" where
  "error_property e =
     \<lparr> address = ''Erreur lors de l'' @ [CHR 0x27] @ ''extraction: '' @ exc_str e,
       price = ''N/A'', type = ''Erreur'', city = ''N/A'', street = ''N/A'' \<rparr>"

text \<open>
  \<open>extract_pdf_data\<close>.  Its result is an exception or a list, so that callers keep their
  own \<open>except\<close> branch; \<open>pdf_open\<close> stands for \<open>pdfplumber.open\<close>.
\<close>

definition extract_pdf_data :: "(string \<Rightarrow> pdf_source) \<Rightarrow> string \<Rightarrow> py_exception + property list" where
  "extract_pdf_data pdf_open pdf_path =
     (case extract_body (pdf_open pdf_path) of
        Inr props \<Rightarrow> Inr props
      | Inl e \<Rightarrow> Inr ([] @ [error_property e]))"

text \<open>\<open>Path(p).name\<close> for a POSIX path: the last component, \<open>.\<close> and empty ones dropped.\<close>

fun split_on :: "char \<Rightarrow> string \<Rightarrow> string list" where
  "split_on sep [] = [[]]"
| "split_on sep (c # cs) =
     (if c = sep then [] # split_on sep cs
      else (case split_on sep cs of [] \<Rightarrow> [[c]] | w # ws \<Rightarrow> (c # w) # ws))"

definition path_name :: "string \<Rightarrow> string" where
  "path_name p =
     (case rev (filter (\<lambda>part. part \<noteq> [] \<and> part \<noteq> ''.'') (split_on CHR ''/'' p)) of
        [] \<Rightarrow> []
      | last_part # others \<Rightarrow> last_part)"

record extraction_result =
  success :: bool
  filename :: string
  total_properties :: nat
  properties :: "property list"
  extraction_method :: string
  errors :: "string list"

definition extract_centris_detailed :: "(string \<Rightarrow> pdf_source) \<Rightarrow> string \<Rightarrow> extraction_result" where
  "extract_centris_detailed pdf_open pdf_path =
     (let result = \<lparr> success = False, filename = path_name pdf_path, total_properties = 0,
                      properties = [], extraction_method = ''pdfplumber'', errors = [] \<rparr>
      in case extract_pdf_data pdf_open pdf_path of
           Inr props \<Rightarrow>
             result\<lparr> properties := props, total_properties := length props, success := True \<rparr>
         | Inl e \<Rightarrow>
             result\<lparr> errors := errors result @ [exc_str e], success := False \<rparr>)"

definition extract_pdf_data_wrapper :: "(string \<Rightarrow> pdf_source) \<Rightarrow> string \<Rightarrow> py_exception + property list" where
  "extract_pdf_data_wrapper pdf_open pdf_path = extract_pdf_data pdf_open pdf_path"


section \<open>\<open>core/centris_extractor_correct.py\<close>\<close>

text \<open>
  A raw record is a dict from field names to strings.  A dict the code builds is kept
  as the list of its items in insertion order, since the order of the keys is what the
  export writes.
\<close>

type_synonym raw_record = "string \<Rightarrow> string option"

type_synonym py_dict = "(string \<times> string) list"

definition dict_get :: "raw_record \<Rightarrow> string \<Rightarrow> string \<Rightarrow> string" where
  "dict_get d k fallback = (case d k of None \<Rightarrow> fallback | Some v \<Rightarrow> v)"

text \<open>\<open>_format_price\<close>.\<close>

definition format_price :: "string \<Rightarrow> string" where
  "format_price price_str =
     (if price_str = [] then []
      else if CHR ''$'' \<in> set price_str then price_str
      else
        let price_digits = filter is_decimal price_str in
        if price_digits = [] then price_str
        else
          (case py_int price_digits of
             Inr price_num \<Rightarrow>
               (let formatted = replace_char CHR '','' CHR '' '' (format_comma price_num)
                in formatted @ '' $'')
           | Inl e \<Rightarrow> price_str))"

text \<open>The column names, as \<open>export_to_xlsx_original\<close> declares them.\<close>

definition columns_order :: "string list" where
  "columns_order =
     [''Centris #'',
      ''Adresse compl'' @ e_grave @ ''te'',
      ''Quartier'',
      ''Type de propri'' @ e_acute @ ''t'' @ e_acute,
      ''Prix actuel'',
      ''Prix original'',
      ''Propri'' @ e_acute @ ''taire(s): nom(s) et adresse(s)'',
      ''Repr'' @ e_acute @ ''sentant(s): nom(s) et adresse(s)'',
      ''Courtier(s): nom(s)'',
      ''Courtier(s): t'' @ e_acute @ ''l'' @ e_acute @ ''phone(s)'',
      ''Courtier(s): courriel(s)'']"

text \<open>The fields the dict literal of \<open>extract_to_original_format\<close> reads, in its order.\<close>

definition raw_fields :: "string list" where
  "raw_fields =
     [''Centris #'',
      ''Adresse compl'' @ e_grave @ ''te'',
      ''Quartier'',
      ''Type de propri'' @ e_acute @ ''t'' @ e_acute,
      ''Prix actuel'',
      ''Prix original'',
      ''Propri'' @ e_acute @ ''taire(s)'',
      ''Repr'' @ e_acute @ ''sentant(s)'',
      ''Courtier(s): nom(s)'',
      ''Courtier(s): t'' @ e_acute @ ''l'' @ e_acute @ ''phone(s)'',
      ''Courtier(s): courriel(s)'']"

text \<open>
  The dict literal \<open>formatted_record\<close>.  With string fields nothing in it raises; the
  result is still a sum so that the \<open>except\<close> branch of the loop stays in the model.
\<close>

definition format_record :: "raw_record \<Rightarrow> py_exception + py_dict" where
  "format_record property_data =
     Inr
      [(''Centris #'', dict_get property_data ''Centris #'' []),
       (''Adresse compl'' @ e_grave @ ''te'',
          dict_get property_data (''Adresse compl'' @ e_grave @ ''te'') []),
       (''Quartier'', dict_get property_data ''Quartier'' []),
       (''Type de propri'' @ e_acute @ ''t'' @ e_acute,
          dict_get property_data (''Type de propri'' @ e_acute @ ''t'' @ e_acute) []),
       (''Prix actuel'', format_price (dict_get property_data ''Prix actuel'' [])),
       (''Prix original'', format_price (dict_get property_data ''Prix original'' [])),
       (''Propri'' @ e_acute @ ''taire(s): nom(s) et adresse(s)'',
          dict_get property_data (''Propri'' @ e_acute @ ''taire(s)'') []),
       (''Repr'' @ e_acute @ ''sentant(s): nom(s) et adresse(s)'',
          dict_get property_data (''Repr'' @ e_acute @ ''sentant(s)'') []),
       (''Courtier(s): nom(s)'', dict_get property_data ''Courtier(s): nom(s)'' []),
       (''Courtier(s): t'' @ e_acute @ ''l'' @ e_acute @ ''phone(s)'',
          dict_get property_data (''Courtier(s): t'' @ e_acute @ ''l'' @ e_acute @ ''phone(s)'') []),
       (''Courtier(s): courriel(s)'', dict_get property_data ''Courtier(s): courriel(s)'' [])]"

fun format_loop :: "string \<Rightarrow> raw_record list \<Rightarrow> py_dict list \<Rightarrow> py_dict list \<Rightarrow> py_dict list \<times> py_dict list" where
  "format_loop name [] formatted_data errs = (formatted_data, errs)"
| "format_loop name (property_data # rest) formatted_data errs =
     (case format_record property_data of
        Inr formatted_record \<Rightarrow>
          format_loop name rest (formatted_data @ [formatted_record]) errs
      | Inl e \<Rightarrow>
          format_loop name rest formatted_data
            (errs @ [[(''NomFichier'', name),
                      (''Centris #'', dict_get property_data ''Centris #'' ''N/A''),
                      (''MessageErreur'', ''Erreur formatage: '' @ exc_str e)]]))"

text \<open>
  \<open>extract_to_original_format\<close>.  The extractor it wraps belongs to another code base;
  what \<open>self.extractor.extract_from_pdf(pdf_path)\<close> answers is the first argument, and
  \<open>name\<close> is \<open>pdf_path.name\<close>.
\<close>

definition extract_to_original_format :: "py_exception + raw_record list \<Rightarrow> string \<Rightarrow> py_dict list \<times> py_dict list" where
  "extract_to_original_format extract_from_pdf name =
     (case extract_from_pdf of
        Inl e \<Rightarrow>
          ([], [[(''NomFichier'', name),
                 (''MessageErreur'', ''Erreur extraction PDF: '' @ exc_str e)]])
      | Inr extracted_data \<Rightarrow>
          if extracted_data = []
          then ([], [[(''NomFichier'', name),
                      (''MessageErreur'', ''Aucune donn'' @ e_acute @ ''e extraite du PDF'')]])
          else format_loop name extracted_data [] [])"


text \<open>
  \<open>export_to_xlsx_original\<close>.  A workbook is the list of its sheets; a cell is \<open>None\<close>
  when the data frame holds no entry there.  \<open>pd.DataFrame(records)\<close> has the keys of
  the records as columns, in the order in which they first appear.
\<close>

record sheet =
  sheet_name :: string
  header :: "string list"
  rows :: "string option list list"
  column_widths :: "nat list option"

type_synonym workbook = "sheet list"

definition dataframe_columns :: "py_dict list \<Rightarrow> string list" where
  "dataframe_columns records = rev (remdups (rev (concat (map (map fst) records))))"

text \<open>The width loop: the longest non-empty cell of the column plus two, at most 60.\<close>

definition adjusted_width :: "string option list \<Rightarrow> nat" where
  "adjusted_width column =
     min (foldl (\<lambda>max_length cell.
                   case cell of
                     None \<Rightarrow> max_length
                   | Some v \<Rightarrow> if v \<noteq> [] \<and> length v > max_length then length v
                              else max_length)
            0 column + 2) 60"

definition data_sheet :: "py_dict list \<Rightarrow> sheet" where
  "data_sheet data =
     (let df_columns = dataframe_columns data;
          table = map (\<lambda>entry. map (\<lambda>col. if col \<in> set df_columns then map_of entry col
                                          else Some []) columns_order) data
      in \<lparr> sheet_name = ''Sheet1'',
           header = columns_order,
           rows = table,
           column_widths =
             Some (map (\<lambda>j. adjusted_width (Some (columns_order ! j) # map (\<lambda>row. row ! j) table))
                     [0..<length columns_order]) \<rparr>)"

definition error_sheet :: "py_dict list \<Rightarrow> sheet" where
  "error_sheet errs =
     (let df_columns = dataframe_columns errs
      in \<lparr> sheet_name = ''Erreurs'',
           header = df_columns,
           rows = map (\<lambda>entry. map (map_of entry) df_columns) errs,
           column_widths = None \<rparr>)"

text \<open>
  \<open>write_file\<close> stands for the file system and the spreadsheet library: whether opening
  \<open>output_path\<close> and saving the workbook on leaving the \<open>with\<close> block goes through.
  A failure raises inside the \<open>try\<close> and is answered with \<open>False\<close>.
\<close>

definition export_to_xlsx_original :: "(workbook \<Rightarrow> bool) \<Rightarrow> py_dict list \<Rightarrow> py_dict list \<Rightarrow> bool \<times> workbook option" where
  "export_to_xlsx_original write_file data errs =
     (let sheets = (if data \<noteq> [] then [data_sheet data] else [])
                   @ (if errs \<noteq> [] then [error_sheet errs] else [])
      in if write_file sheets then (True, Some sheets) else (False, None))"


section \<open>\<open>main.py\<close>: the upload handler\<close>

text \<open>
  The upload as the handler sees it: \<open>file.filename\<close>, \<open>file.size\<close> (both optional in the
  framework's type) and what \<open>await file.read()\<close> answers.
\<close>

record upload_file =
  file_name :: "string option"
  file_size :: "nat option"
  file_read :: "py_exception + string"

text \<open>
  The environment of one request: writing the temporary file (its path, or an
  exception) and the PDF library.
\<close>

record request_env =
  write_temp :: "string \<Rightarrow> py_exception + string"
  open_pdf :: "string \<Rightarrow> pdf_source"

record extract_response =
  resp_success :: bool
  resp_filename :: string
  resp_total_properties :: nat
  resp_properties :: "property list"
  resp_message :: string

datatype http_result = JSONResponse extract_response | HTTPException nat string

text \<open>What the handler did besides answering, in order.\<close>

datatype effect = ReadUpload | WriteTemp | RunExtraction | DeleteTemp

definition max_upload_size :: nat where
  "max_upload_size = 10 * 1024 * 1024"

definition extract_pdf :: "request_env \<Rightarrow> upload_file \<Rightarrow> http_result \<times> effect list" where
  "extract_pdf env file =
     (case file_name file of
        None \<Rightarrow>
          (HTTPException 500
             (''Internal server error: '' @ [CHR 0x27] @ ''NoneType'' @ [CHR 0x27]
                @ '' object has no attribute '' @ [CHR 0x27] @ ''endswith'' @ [CHR 0x27]), [])
      | Some fname \<Rightarrow>
          if \<not> endswith fname ''.pdf'' then (HTTPException 400 ''File must be a PDF'', [])
          else if (case file_size file of None \<Rightarrow> False
                   | Some n \<Rightarrow> n \<noteq> 0 \<and> n > max_upload_size)
          then (HTTPException 413 ''File too large. Maximum size is 10MB'', [])
          else
            (case file_read file of
               Inl e \<Rightarrow>
                 (HTTPException 500 (''Internal server error: '' @ exc_str e), [ReadUpload])
             | Inr pdf_content \<Rightarrow>
                 (case write_temp env pdf_content of
                    Inl e \<Rightarrow>
                      (HTTPException 500 (''Internal server error: '' @ exc_str e),
                       [ReadUpload, WriteTemp])
                  | Inr temp_file_path \<Rightarrow>
                      (case extract_pdf_data_wrapper (open_pdf env) temp_file_path of
                         Inr extracted_data \<Rightarrow>
                           (JSONResponse
                              \<lparr> resp_success = True,
                                resp_filename = fname,
                                resp_total_properties = length extracted_data,
                                resp_properties = extracted_data,
                                resp_message = ''Successfully extracted ''
                                  @ str_of_nat (length extracted_data) @ '' properties'' \<rparr>,
                            [ReadUpload, WriteTemp, RunExtraction, DeleteTemp])
                       | Inl e \<Rightarrow>
                           (HTTPException 422
                              (''Failed to extract data from PDF: '' @ exc_str e),
                            [ReadUpload, WriteTemp, RunExtraction, DeleteTemp])))))"



section \<open>The price format in the specification's words\<close>

text \<open>
  The digits cut into chunks of three from the right, and the chunks joined with a
  separator: the format the specification describes for a normalised price.
\<close>

fun groups_of_three_from_right :: "string \<Rightarrow> string list" where
  "groups_of_three_from_right ds =
     (if length ds \<le> 3 then [ds]
      else groups_of_three_from_right (take (length ds - 3) ds) @ [drop (length ds - 3) ds])"

declare groups_of_three_from_right.simps [simp del]

fun join_with :: "string \<Rightarrow> string list \<Rightarrow> string" where
  "join_with sep [] = []"
| "join_with sep [x] = x"
| "join_with sep (x # y # ys) = x @ sep @ join_with sep (y # ys)"

definition spec_normalize_price :: "string \<Rightarrow> string" where
  "spec_normalize_price x =
     (if x = [] then []
      else if CHR ''$'' \<in> set x then x
      else if filter is_decimal x = [] then x
      else join_with '' ''
             (groups_of_three_from_right (str_of_nat (digits_to_nat (filter is_decimal x))))
           @ '' $'')"

text \<open>
  A price match whose digits are regrouped in threes with a \<open>$\<close> directly behind: what
  the placeholder branch of \<open>extract_pdf_data\<close> makes of an amount found in the document.
\<close>

definition reformatted_amount :: "string \<Rightarrow> string" where
  "reformatted_amount p =
     join_with '' ''
       (groups_of_three_from_right (str_of_nat (digits_to_nat (filter is_decimal p))))
     @ ''$''"


section \<open>Decimal digits and grouping\<close>

lemma digit_char_decimal: "d < 10 \<Longrightarrow> is_decimal (digit_char d)"
proof -
  assume "d < 10"
  then have "d \<in> {0, 1, 2, 3, 4, 5, 6, 7, 8, 9}" by auto
  then show ?thesis by (auto simp: is_decimal_def digit_char_def)
qed

lemma decimal_value_digit_char: "d < 10 \<Longrightarrow> decimal_value (digit_char d) = d"
proof -
  assume "d < 10"
  then have "d \<in> {0, 1, 2, 3, 4, 5, 6, 7, 8, 9}" by auto
  then show ?thesis by (auto simp: decimal_value_def digit_char_def)
qed

lemma str_of_nat_ge10:
  "10 \<le> n \<Longrightarrow> str_of_nat n = str_of_nat (n div 10) @ [digit_char (n mod 10)]"
  by (subst str_of_nat.simps) simp

lemma str_of_nat_decimal: "list_all is_decimal (str_of_nat n)"
proof (induction n rule: str_of_nat.induct)
  case (1 n)
  show ?case
  proof (cases "n < 10")
    case True
    then show ?thesis by (simp add: str_of_nat.simps[of n] digit_char_decimal)
  next
    case False
    with 1 show ?thesis by (simp add: str_of_nat.simps[of n] digit_char_decimal)
  qed
qed

lemma str_of_nat_nonempty: "str_of_nat n \<noteq> []"
  by (subst str_of_nat.simps) simp

lemma digits_to_nat_snoc:
  "digits_to_nat (ds @ [c]) = 10 * digits_to_nat ds + decimal_value c"
  by (simp add: digits_to_nat_def)

text \<open>\<open>int(str(n)) == n\<close>: the two conversions are inverse to each other.\<close>

lemma digits_to_nat_str_of_nat: "digits_to_nat (str_of_nat n) = n"
proof (induction n rule: str_of_nat.induct)
  case (1 n)
  show ?case
  proof (cases "n < 10")
    case True
    then show ?thesis
      by (simp add: str_of_nat.simps[of n] digits_to_nat_def decimal_value_digit_char)
  next
    case False
    then have "digits_to_nat (str_of_nat n) = 10 * (n div 10) + n mod 10"
      using 1 by (simp add: str_of_nat_ge10 digits_to_nat_snoc decimal_value_digit_char)
    then show ?thesis by simp
  qed
qed

lemma mod_div_swap: "0 < b \<Longrightarrow> (n::nat) mod (b * c) div b = n div b mod c"
  by (simp add: mod_mult2_eq)

lemma str_of_nat_thousands:
  assumes "1000 \<le> n"
  shows "str_of_nat n = str_of_nat (n div 1000) @ pad3 (n mod 1000)"
proof -
  have a: "str_of_nat n = str_of_nat (n div 10) @ [digit_char (n mod 10)]"
    using assms by (simp add: str_of_nat_ge10)
  have b: "str_of_nat (n div 10) =
           str_of_nat (n div 10 div 10) @ [digit_char (n div 10 mod 10)]"
    using assms by (simp add: str_of_nat_ge10)
  have c: "str_of_nat (n div 10 div 10) =
           str_of_nat (n div 10 div 10 div 10) @ [digit_char (n div 10 div 10 mod 10)]"
    using assms by (simp add: str_of_nat_ge10)
  have d1: "n div 10 div 10 div 10 = n div 1000"
    by (simp add: div_mult2_eq[symmetric])
  have d2: "n mod 1000 div 100 = n div 10 div 10 mod 10"
    using mod_div_swap[of 100 n 10] by (simp add: div_mult2_eq[symmetric])
  have "n mod 1000 div 10 = n div 10 mod 100"
    using mod_div_swap[of 10 n 100] by simp
  then have d3: "n mod 1000 div 10 mod 10 = n div 10 mod 10"
    by (simp add: mod_mod_cancel)
  have d4: "n mod 1000 mod 10 = n mod 10"
    by (simp add: mod_mod_cancel)
  have e: "str_of_nat n = str_of_nat (n div 10 div 10 div 10) @
             [digit_char (n div 10 div 10 mod 10), digit_char (n div 10 mod 10),
              digit_char (n mod 10)]"
    by (simp only: a b c append_assoc append_Cons append_Nil)
  show ?thesis
    unfolding pad3_def d2 d3 d4 e d1 by (rule refl)
qed

lemma length_str_of_nat_small: "n < 1000 \<Longrightarrow> length (str_of_nat n) \<le> 3"
proof -
  assume n: "n < 1000"
  show ?thesis
  proof (cases "n < 10")
    case True
    then show ?thesis by (simp add: str_of_nat.simps[of n])
  next
    case False
    then have a: "str_of_nat n = str_of_nat (n div 10) @ [digit_char (n mod 10)]"
      by (simp add: str_of_nat_ge10)
    show ?thesis
    proof (cases "n div 10 < 10")
      case True
      then show ?thesis using a by (simp add: str_of_nat.simps[of "n div 10"])
    next
      case False
      then have b: "str_of_nat (n div 10) =
                    str_of_nat (n div 10 div 10) @ [digit_char (n div 10 mod 10)]"
        by (simp add: str_of_nat_ge10)
      have "n div 10 div 10 < 10" using n by simp
      then show ?thesis using a b by (simp add: str_of_nat.simps[of "n div 10 div 10"])
    qed
  qed
qed

lemma replace_char_id: "old \<notin> set s \<Longrightarrow> replace_char old new s = s"
  by (induction s) (auto simp: replace_char_def)

lemma replace_char_Cons:
  "replace_char a b (x # xs) = (if x = a then b else x) # replace_char a b xs"
  by (simp add: replace_char_def)

lemma replace_char_append:
  "replace_char a b (xs @ ys) = replace_char a b xs @ replace_char a b ys"
  by (simp add: replace_char_def)

lemma comma_not_decimal: "list_all is_decimal s \<Longrightarrow> CHR '','' \<notin> set s"
  by (induction s) (auto simp: is_decimal_def)

lemma pad3_decimal: "m < 1000 \<Longrightarrow> list_all is_decimal (pad3 m)"
  by (simp add: pad3_def digit_char_decimal)

lemma join_with_snoc: "xs \<noteq> [] \<Longrightarrow> join_with sep (xs @ [c]) = join_with sep xs @ sep @ c"
  by (induction sep xs rule: join_with.induct) auto

lemma groups_nonempty: "groups_of_three_from_right ds \<noteq> []"
  by (subst groups_of_three_from_right.simps) simp

lemma groups_snoc3:
  "ds \<noteq> [] \<Longrightarrow> length c = 3 \<Longrightarrow>
   groups_of_three_from_right (ds @ c) = groups_of_three_from_right ds @ [c]"
  by (subst groups_of_three_from_right.simps) simp

text \<open>The chunks are a partition of the digits: nothing is lost or reordered.\<close>

lemma concat_groups: "concat (groups_of_three_from_right ds) = ds"
proof (induction ds rule: groups_of_three_from_right.induct)
  case (1 ds)
  show ?case
  proof (cases "length ds \<le> 3")
    case True
    then show ?thesis by (simp add: groups_of_three_from_right.simps[of ds])
  next
    case False
    with 1 show ?thesis by (simp add: groups_of_three_from_right.simps[of ds])
  qed
qed

text \<open>Every chunk but the first has three digits; the first has one to three.\<close>

lemma groups_tail_three: "list_all (\<lambda>g. length g = 3) (tl (groups_of_three_from_right ds))"
proof (induction ds rule: groups_of_three_from_right.induct)
  case (1 ds)
  show ?case
  proof (cases "length ds \<le> 3")
    case True
    then show ?thesis by (simp add: groups_of_three_from_right.simps[of ds])
  next
    case False
    with 1 show ?thesis
      by (simp add: groups_of_three_from_right.simps[of ds] groups_nonempty)
  qed
qed

lemma groups_head_short:
  "ds \<noteq> [] \<Longrightarrow> 1 \<le> length (hd (groups_of_three_from_right ds))
     \<and> length (hd (groups_of_three_from_right ds)) \<le> 3"
proof (induction ds rule: groups_of_three_from_right.induct)
  case (1 ds)
  show ?case
  proof (cases "length ds \<le> 3")
    case True
    then have "groups_of_three_from_right ds = [ds]"
      by (simp add: groups_of_three_from_right.simps[of ds])
    with 1(2) True show ?thesis
      by (cases ds) simp_all
  next
    case False
    then have "take (length ds - 3) ds \<noteq> []" by auto
    with 1(1) False show ?thesis
      by (simp add: groups_of_three_from_right.simps[of ds] groups_nonempty)
  qed
qed

text \<open>
  The source's \<open>f"{n:,}".replace(',', ' ')\<close> is the grouping the specification
  describes.
\<close>

lemma format_comma_groups:
  "replace_char CHR '','' CHR '' '' (format_comma n) =
   join_with '' '' (groups_of_three_from_right (str_of_nat n))"
proof (induction n rule: format_comma.induct)
  case (1 n)
  show ?case
  proof (cases "n < 1000")
    case True
    then have "groups_of_three_from_right (str_of_nat n) = [str_of_nat n]"
      by (subst groups_of_three_from_right.simps) (simp add: length_str_of_nat_small)
    moreover have "replace_char CHR '','' CHR '' '' (str_of_nat n) = str_of_nat n"
      by (rule replace_char_id) (rule comma_not_decimal, rule str_of_nat_decimal)
    ultimately show ?thesis using True by (simp add: format_comma.simps[of n])
  next
    case False
    then have ih: "replace_char CHR '','' CHR '' '' (format_comma (n div 1000)) =
                   join_with '' '' (groups_of_three_from_right (str_of_nat (n div 1000)))"
      using 1 by simp
    have p: "replace_char CHR '','' CHR '' '' (pad3 (n mod 1000)) = pad3 (n mod 1000)"
      by (rule replace_char_id) (rule comma_not_decimal, rule pad3_decimal, simp)
    have s: "str_of_nat n = str_of_nat (n div 1000) @ pad3 (n mod 1000)"
      using False by (simp add: str_of_nat_thousands)
    have g: "groups_of_three_from_right (str_of_nat n) =
             groups_of_three_from_right (str_of_nat (n div 1000)) @ [pad3 (n mod 1000)]"
      unfolding s by (rule groups_snoc3) (simp_all add: str_of_nat_nonempty pad3_def)
    have "replace_char CHR '','' CHR '' '' (format_comma n) =
          replace_char CHR '','' CHR '' '' (format_comma (n div 1000))
            @ '' '' @ pad3 (n mod 1000)"
      using False
      by (simp add: format_comma.simps[of n] replace_char_append replace_char_Cons p)
    then show ?thesis
      unfolding g ih by (simp add: join_with_snoc groups_nonempty)
  qed
qed

lemma py_int_of_digits:
  "ds \<noteq> [] \<Longrightarrow> list_all is_decimal ds \<Longrightarrow> length ds \<le> int_max_str_digits \<Longrightarrow>
   py_int ds = Inr (digits_to_nat ds)"
  by (simp add: py_int_def)

lemma py_int_over_limit:
  "list_all is_decimal ds \<Longrightarrow> int_max_str_digits < length ds \<Longrightarrow>
   py_int ds = Inl (int_limit_error (length ds))"
  by (auto simp: py_int_def)

lemma filter_decimal_all: "list_all is_decimal (filter is_decimal s)"
  by (induction s) auto

lemmas price_eval = format_price_def is_decimal_def py_int_def int_max_str_digits_def
  digits_to_nat_def decimal_value_def replace_char_def format_comma.simps str_of_nat.simps
  pad3_def digit_char_def

lemma format_price_over_limit_unchanged:
  "int_max_str_digits < length (filter is_decimal x) \<Longrightarrow> format_price x = x"
proof -
  assume over: "int_max_str_digits < length (filter is_decimal x)"
  then have ne: "filter is_decimal x \<noteq> []" by auto
  have "py_int (filter is_decimal x) = Inl (int_limit_error (length (filter is_decimal x)))"
    using over by (simp add: py_int_over_limit filter_decimal_all)
  then show ?thesis using ne by (auto simp: format_price_def Let_def)
qed

lemma format_price_within_limit_spec:
  "length (filter is_decimal x) \<le> int_max_str_digits \<Longrightarrow>
   format_price x = spec_normalize_price x"
proof -
  assume le: "length (filter is_decimal x) \<le> int_max_str_digits"
  have "filter is_decimal x \<noteq> [] \<longrightarrow>
        py_int (filter is_decimal x) = Inr (digits_to_nat (filter is_decimal x))"
    using le by (simp add: py_int_of_digits filter_decimal_all)
  then show ?thesis
    by (simp add: format_price_def spec_normalize_price_def Let_def format_comma_groups)
qed

lemma spec_normalize_price_has_dollar:
  "filter is_decimal x \<noteq> [] \<Longrightarrow> CHR ''$'' \<in> set (spec_normalize_price x)"
  by (auto simp: spec_normalize_price_def)


section \<open>The price normaliser\<close>

text \<open>
  Claim C2, as amended.  \<open>_format_price\<close> never raises and returns, for every input
  string: the empty string for the empty input; the input itself when it contains
  \<open>$\<close>; the input itself when it has no digit; the input itself when it has more than
  4300 digits, since \<open>int()\<close> then raises the \<open>ValueError\<close> that the function catches;
  otherwise the digits, read as a number, grouped in threes from the right with single
  spaces and followed by a space and \<open>$\<close>.  Up to 4300 digits \<open>int()\<close> succeeds.  The
  two examples of the specification are instances.
\<close>

theorem format_price_up_to_int_limit:
  "format_price x =
     (if int_max_str_digits < length (filter is_decimal x) then x
      else spec_normalize_price x)
   \<and> (filter is_decimal x \<noteq> [] \<and> length (filter is_decimal x) \<le> int_max_str_digits \<longrightarrow>
        py_int (filter is_decimal x) = Inr (digits_to_nat (filter is_decimal x)))
   \<and> (int_max_str_digits < length (filter is_decimal x) \<longrightarrow>
        py_int (filter is_decimal x) = Inl (int_limit_error (length (filter is_decimal x))))
   \<and> int_max_str_digits = 4300
   \<and> format_price ''450000'' = ''450 000 $''
   \<and> format_price ''1500'' = ''1 500 $''"
proof -
  have a: "format_price x =
     (if int_max_str_digits < length (filter is_decimal x) then x
      else spec_normalize_price x)"
    using format_price_over_limit_unchanged[of x] format_price_within_limit_spec[of x]
    by (cases "int_max_str_digits < length (filter is_decimal x)") simp_all
  have b: "filter is_decimal x \<noteq> [] \<and> length (filter is_decimal x) \<le> int_max_str_digits \<longrightarrow>
        py_int (filter is_decimal x) = Inr (digits_to_nat (filter is_decimal x))"
    by (simp add: py_int_of_digits filter_decimal_all)
  have c: "int_max_str_digits < length (filter is_decimal x) \<longrightarrow>
        py_int (filter is_decimal x) = Inl (int_limit_error (length (filter is_decimal x)))"
    by (simp add: py_int_over_limit filter_decimal_all)
  have d: "int_max_str_digits = 4300"
    by (simp add: int_max_str_digits_def)
  have e: "format_price ''450000'' = ''450 000 $''"
    by (simp add: price_eval)
  have f: "format_price ''1500'' = ''1 500 $''"
    by (simp add: price_eval)
  show ?thesis using a b c d e f by blast
qed

theorem format_price_up_to_int_limit_witness:
  "filter is_decimal ''12a3456'' \<noteq> []
   \<and> length (filter is_decimal ''12a3456'') \<le> int_max_str_digits
   \<and> format_price ''12a3456'' = ''123 456 $''
   \<and> spec_normalize_price ''12a3456'' = ''123 456 $''
   \<and> py_int ''123456'' = Inr 123456"
proof -
  have f: "filter is_decimal ''12a3456'' = ''123456''"
    by (simp add: is_decimal_def)
  have l: "length (filter is_decimal ''12a3456'') \<le> int_max_str_digits"
    unfolding f by (simp add: int_max_str_digits_def)
  have v: "format_price ''12a3456'' = ''123 456 $''"
    by (simp add: price_eval)
  have d: "digits_to_nat ''123456'' = 123456"
    by (simp add: digits_to_nat_def decimal_value_def)
  show ?thesis
    using format_price_up_to_int_limit[of "''12a3456''"] f l v d by simp
qed

text \<open>
  Claim C2 as written fails on a long digit string: 4301 times the digit \<open>1\<close> has no
  \<open>$\<close> and is all digits, yet it comes back unchanged instead of grouped and followed
  by \<open>$\<close>.
\<close>

theorem long_digit_string_unchanged:
  "format_price (replicate 4301 CHR ''1'') = replicate 4301 CHR ''1''
   \<and> filter is_decimal (replicate 4301 CHR ''1'') = replicate 4301 CHR ''1''
   \<and> length (replicate 4301 CHR ''1'') = 4301
   \<and> CHR ''$'' \<notin> set (replicate 4301 CHR ''1'')
   \<and> format_price (replicate 4301 CHR ''1'') \<noteq> spec_normalize_price (replicate 4301 CHR ''1'')"
proof -
  let ?x = "replicate 4301 CHR ''1''"
  have dec: "is_decimal CHR ''1''" by (simp add: is_decimal_def)
  have f: "filter is_decimal ?x = ?x" using dec by simp
  have l: "length ?x = 4301" by (rule length_replicate)
  have over: "int_max_str_digits < length (filter is_decimal ?x)"
    unfolding f l by (simp add: int_max_str_digits_def)
  have u: "format_price ?x = ?x"
    using over by (rule format_price_over_limit_unchanged)
  have nd: "CHR ''$'' \<notin> set ?x" by simp
  have "filter is_decimal ?x \<noteq> []" using over by auto
  then have "CHR ''$'' \<in> set (spec_normalize_price ?x)"
    by (rule spec_normalize_price_has_dollar)
  with nd have "spec_normalize_price ?x \<noteq> ?x" by metis
  with u have ne: "format_price ?x \<noteq> spec_normalize_price ?x" by simp
  show ?thesis using u f l nd ne by blast
qed

text \<open>
  Claim C3.  Normalising twice is the same as normalising once, for every input
  string; and an input that already contains \<open>$\<close> comes back unchanged.
\<close>

theorem format_price_idempotent:
  "format_price (format_price x) = format_price x
   \<and> (CHR ''$'' \<in> set x \<longrightarrow> format_price x = x)"
  by (auto simp: format_price_def Let_def split: sum.splits)

theorem format_price_idempotent_witness:
  "CHR ''$'' \<in> set ''450 000$''
   \<and> format_price ''450 000$'' = ''450 000$''
   \<and> format_price (format_price ''450 000$'') = format_price ''450 000$''"
  using format_price_idempotent[of "''450 000$''"] by simp

section \<open>The schema adapter\<close>

lemma format_loop_eq:
  "format_loop name raws acc errs = (acc @ map (\<lambda>raw. projr (format_record raw)) raws, errs)"
  by (induction raws arbitrary: acc) (simp_all add: format_record_def)

lemma format_record_keys: "map fst (projr (format_record raw)) = columns_order"
  by (simp add: format_record_def columns_order_def)

lemma columns_order_distinct: "distinct columns_order \<and> length columns_order = 11"
  by (simp add: columns_order_def accents)

lemma format_record_missing:
  assumes "j < 11" and "raw (raw_fields ! j) = None"
  shows "snd (projr (format_record raw) ! j) = []"
proof -
  from assms(1) have "j = 0 \<or> j = 1 \<or> j = 2 \<or> j = 3 \<or> j = 4 \<or> j = 5 \<or> j = 6
      \<or> j = 7 \<or> j = 8 \<or> j = 9 \<or> j = 10"
    by arith
  then show ?thesis
    using assms(2)
    by (elim disjE)
       (simp_all add: format_record_def raw_fields_def dict_get_def format_price_def)
qed

lemma extract_data_eq:
  "fst (extract_to_original_format (Inr raws) name) = map (\<lambda>raw. projr (format_record raw)) raws"
  by (simp add: extract_to_original_format_def format_loop_eq)

lemma extract_data_keys:
  "r \<in> set (fst (extract_to_original_format res name)) \<Longrightarrow>
   map fst r = columns_order \<and> length r = 11 \<and> distinct (map fst r)"
proof (cases res)
  case (Inl e)
  assume "r \<in> set (fst (extract_to_original_format res name))"
  with Inl show ?thesis by (simp add: extract_to_original_format_def)
next
  case (Inr raws)
  assume "r \<in> set (fst (extract_to_original_format res name))"
  then obtain raw where r: "r = projr (format_record raw)"
    unfolding Inr extract_data_eq by auto
  have k: "map fst r = columns_order" unfolding r by (rule format_record_keys)
  have "length r = length (map fst r)" by simp
  then have "length r = 11" unfolding k using columns_order_distinct by simp
  then show ?thesis using k columns_order_distinct by simp
qed

text \<open>
  Claim C1.  Whatever the wrapped extractor answers, every record in the data list of
  \<open>extract_to_original_format\<close> has exactly the eleven declared keys, in the order of
  \<open>columns_order\<close>, each once; there is one such record per raw record; and a field
  the raw record lacks is the empty string in it.  The values are strings by their type.
\<close>

theorem canonical_records_have_declared_keys:
  "(\<forall>r \<in> set (fst (extract_to_original_format res name)).
       map fst r = columns_order \<and> length r = 11 \<and> distinct (map fst r))
   \<and> (\<forall>raws. res = Inr raws \<longrightarrow>
         length (fst (extract_to_original_format res name)) = length raws
         \<and> (\<forall>i < length raws. \<forall>j < 11.
               (raws ! i) (raw_fields ! j) = None \<longrightarrow>
               snd (fst (extract_to_original_format res name) ! i ! j) = []))"
proof (rule conjI)
  show "\<forall>r \<in> set (fst (extract_to_original_format res name)).
       map fst r = columns_order \<and> length r = 11 \<and> distinct (map fst r)"
    using extract_data_keys by blast
next
  show "\<forall>raws. res = Inr raws \<longrightarrow>
         length (fst (extract_to_original_format res name)) = length raws
         \<and> (\<forall>i < length raws. \<forall>j < 11.
               (raws ! i) (raw_fields ! j) = None \<longrightarrow>
               snd (fst (extract_to_original_format res name) ! i ! j) = [])"
  proof (intro allI impI)
    fix raws assume res: "res = Inr raws"
    show "length (fst (extract_to_original_format res name)) = length raws
         \<and> (\<forall>i < length raws. \<forall>j < 11.
               (raws ! i) (raw_fields ! j) = None \<longrightarrow>
               snd (fst (extract_to_original_format res name) ! i ! j) = [])"
      unfolding res extract_data_eq by (simp add: format_record_missing)
  qed
qed

theorem canonical_records_have_declared_keys_witness:
  "fst (extract_to_original_format
          (Inr [[''Quartier'' \<mapsto> ''Rosemont'', ''Prix actuel'' \<mapsto> ''450000'', ''Autre'' \<mapsto> ''x'']])
          ''rapport.pdf'')
   = [[(''Centris #'', []),
       (''Adresse compl'' @ e_grave @ ''te'', []),
       (''Quartier'', ''Rosemont''),
       (''Type de propri'' @ e_acute @ ''t'' @ e_acute, []),
       (''Prix actuel'', ''450 000 $''),
       (''Prix original'', []),
       (''Propri'' @ e_acute @ ''taire(s): nom(s) et adresse(s)'', []),
       (''Repr'' @ e_acute @ ''sentant(s): nom(s) et adresse(s)'', []),
       (''Courtier(s): nom(s)'', []),
       (''Courtier(s): t'' @ e_acute @ ''l'' @ e_acute @ ''phone(s)'', []),
       (''Courtier(s): courriel(s)'', [])]]
   \<and> map fst (hd (fst (extract_to_original_format
          (Inr [[''Quartier'' \<mapsto> ''Rosemont'', ''Prix actuel'' \<mapsto> ''450000'', ''Autre'' \<mapsto> ''x'']])
          ''rapport.pdf''))) = columns_order"
proof -
  let ?res = "Inr [[''Quartier'' \<mapsto> ''Rosemont'', ''Prix actuel'' \<mapsto> ''450000'', ''Autre'' \<mapsto> ''x'']]
                :: py_exception + raw_record list"
  have v: "fst (extract_to_original_format ?res ''rapport.pdf'')
   = [[(''Centris #'', []),
       (''Adresse compl'' @ e_grave @ ''te'', []),
       (''Quartier'', ''Rosemont''),
       (''Type de propri'' @ e_acute @ ''t'' @ e_acute, []),
       (''Prix actuel'', ''450 000 $''),
       (''Prix original'', []),
       (''Propri'' @ e_acute @ ''taire(s): nom(s) et adresse(s)'', []),
       (''Repr'' @ e_acute @ ''sentant(s): nom(s) et adresse(s)'', []),
       (''Courtier(s): nom(s)'', []),
       (''Courtier(s): t'' @ e_acute @ ''l'' @ e_acute @ ''phone(s)'', []),
       (''Courtier(s): courriel(s)'', [])]]"
    by (simp add: extract_to_original_format_def format_record_def dict_get_def accents price_eval)
  have "hd (fst (extract_to_original_format ?res ''rapport.pdf''))
          \<in> set (fst (extract_to_original_format ?res ''rapport.pdf''))"
    unfolding v by simp
  then have "map fst (hd (fst (extract_to_original_format ?res ''rapport.pdf''))) = columns_order"
    using canonical_records_have_declared_keys[of ?res "''rapport.pdf''"] by blast
  with v show ?thesis by simp
qed

section \<open>The heuristic extractor\<close>

lemma reformat_match:
  "replace_char CHR '','' CHR '' ''
     (format_comma (digits_to_nat (filter is_decimal p)) @ ''$'') = reformatted_amount p"
  by (simp add: replace_char_append format_comma_groups reformatted_amount_def
        replace_char_Cons) (simp add: replace_char_def)

text \<open>
  The price loop stops with \<open>ValueError\<close> at the first match of more digits than
  \<open>int()\<close> takes; otherwise it keeps the matches of four digits or more, regrouped.
\<close>

lemma sample_prices_loop_eq:
  "sample_prices_loop ps acc =
     (case find (\<lambda>p. int_max_str_digits < length (filter is_decimal p)) ps of
        None \<Rightarrow>
          Inr (acc @ map reformatted_amount
                       (filter (\<lambda>p. 4 \<le> length (filter is_decimal p)) ps))
      | Some p \<Rightarrow> Inl (int_limit_error (length (filter is_decimal p))))"
proof (induction ps arbitrary: acc)
  case Nil
  show ?case by simp
next
  case (Cons p ps)
  show ?case
  proof (cases "int_max_str_digits < length (filter is_decimal p)")
    case True
    then have four: "4 \<le> length (filter is_decimal p)" and ne: "filter is_decimal p \<noteq> []"
      by (auto simp: int_max_str_digits_def)
    have "py_int (filter is_decimal p) = Inl (int_limit_error (length (filter is_decimal p)))"
      using True by (simp add: py_int_over_limit filter_decimal_all)
    then show ?thesis using True four ne by (simp add: Let_def)
  next
    case under: False
    show ?thesis
    proof (cases "4 \<le> length (filter is_decimal p)")
      case True
      then have ne: "filter is_decimal p \<noteq> []" by auto
      have i: "py_int (filter is_decimal p) = Inr (digits_to_nat (filter is_decimal p))"
        using ne under by (simp add: py_int_of_digits filter_decimal_all)
      show ?thesis
        using True ne i under Cons
        by (simp add: Let_def reformat_match split: option.splits)
    next
      case False
      then have step: "sample_prices_loop (p # ps) acc = sample_prices_loop ps acc"
        by (auto simp: Let_def)
      have f: "find (\<lambda>p. int_max_str_digits < length (filter is_decimal p)) (p # ps)
               = find (\<lambda>p. int_max_str_digits < length (filter is_decimal p)) ps"
        using under by simp
      have g: "filter (\<lambda>p. 4 \<le> length (filter is_decimal p)) (p # ps)
               = filter (\<lambda>p. 4 \<le> length (filter is_decimal p)) ps"
        using False by simp
      show ?thesis unfolding step f g by (rule Cons)
    qed
  qed
qed

lemma sample_prices_loop_within_limit:
  "list_all (\<lambda>p. length (filter is_decimal p) \<le> int_max_str_digits) ps \<Longrightarrow>
   sample_prices_loop ps acc =
     Inr (acc @ map reformatted_amount (filter (\<lambda>p. 4 \<le> length (filter is_decimal p)) ps))"
proof -
  assume "list_all (\<lambda>p. length (filter is_decimal p) \<le> int_max_str_digits) ps"
  then have "find (\<lambda>p. int_max_str_digits < length (filter is_decimal p)) ps = None"
    by (auto simp: find_None_iff list_all_iff)
  then show ?thesis by (simp add: sample_prices_loop_eq)
qed

lemma heuristic_nonempty:
  "addresses \<noteq> [] \<Longrightarrow> map f (enumerate 0 (take 10 addresses)) \<noteq> []"
  by (cases addresses) simp_all

lemma placeholder_indices: "[0..<min (length sample_addresses) 3] = [0, 1, 2]"
  by (simp add: sample_addresses_def upt_rec)

lemma extract_body_heuristic:
  assumes "src = Inr pgs" and "collect_text pgs [] = Inr full_text"
    and "find_addresses full_text \<noteq> []"
  shows "extract_body src =
         Inr (map (heuristic_property (find_prices full_text) (find_types full_text))
                (enumerate 0 (take 10 (find_addresses full_text))))"
  using assms heuristic_nonempty[of "find_addresses full_text"]
  by (simp add: extract_body_def Let_def)

lemma extract_body_placeholder:
  assumes "src = Inr pgs" and "collect_text pgs [] = Inr full_text"
    and "find_addresses full_text = []"
    and "sample_prices_loop (take 3 (find_prices full_text)) [] = Inr found"
  shows "extract_body src =
         Inr (map (placeholder_property (if found = [] then default_sample_prices else found))
                [0, 1, 2])"
  using assms by (simp add: extract_body_def Let_def placeholder_indices)

lemma extract_body_placeholder_raises:
  assumes "src = Inr pgs" and "collect_text pgs [] = Inr full_text"
    and "find_addresses full_text = []"
    and "sample_prices_loop (take 3 (find_prices full_text)) [] = Inl e"
  shows "extract_body src = Inl e"
  using assms by (simp add: extract_body_def Let_def)

lemma extract_body_nonempty: "extract_body src = Inr props \<Longrightarrow> props \<noteq> []"
proof (cases src)
  case (Inl e)
  assume "extract_body src = Inr props"
  with Inl show ?thesis by (simp add: extract_body_def)
next
  case (Inr pgs)
  assume b: "extract_body src = Inr props"
  show ?thesis
  proof (cases "collect_text pgs []")
    case (Inl e)
    with Inr b show ?thesis by (simp add: extract_body_def)
  next
    case t: (Inr full_text)
    show ?thesis
    proof (cases "find_addresses full_text = []")
      case True
      show ?thesis
      proof (cases "sample_prices_loop (take 3 (find_prices full_text)) []")
        case (Inl e)
        then show ?thesis
          using b extract_body_placeholder_raises[OF Inr t True Inl] by simp
      next
        case f: (Inr found)
        show ?thesis
          using b extract_body_placeholder[OF Inr t True f] by auto
      qed
    next
      case False
      then show ?thesis
        using b extract_body_heuristic[OF Inr t False]
          heuristic_nonempty[of "find_addresses full_text"]
        by auto
    qed
  qed
qed

lemma extract_pdf_data_cases:
  "extract_pdf_data opener pdf_path =
     (case extract_body (opener pdf_path) of Inr props \<Rightarrow> Inr props
      | Inl e \<Rightarrow> Inr [error_property e])"
  by (simp add: extract_pdf_data_def split: sum.splits)

lemma extract_pdf_data_total:
  "\<exists>props. extract_pdf_data opener pdf_path = Inr props \<and> props \<noteq> []"
proof (cases "extract_body (opener pdf_path)")
  case (Inl e)
  then show ?thesis by (simp add: extract_pdf_data_cases)
next
  case (Inr props)
  then show ?thesis using extract_body_nonempty[OF Inr] by (simp add: extract_pdf_data_cases)
qed

text \<open>
  Claim C10.  For every path and every behaviour of the PDF library,
  \<open>extract_pdf_data\<close> returns a list and the list is not empty; an exception raised
  inside its \<open>try\<close> block (an unopenable file, a page whose text cannot be read) becomes
  the error-shaped entry of the returned list.  Hence \<open>extract_centris_detailed\<close> never
  enters its \<open>except\<close> branch: its result has \<open>success = True\<close> and no errors.
\<close>

theorem extract_pdf_data_never_raises:
  "(\<exists>props. extract_pdf_data opener pdf_path = Inr props \<and> props \<noteq> [])
   \<and> (\<forall>e. extract_body (opener pdf_path) = Inl e \<longrightarrow>
          extract_pdf_data opener pdf_path = Inr [error_property e])
   \<and> (\<forall>e. opener pdf_path = Inl e \<longrightarrow> extract_body (opener pdf_path) = Inl e)
   \<and> success (extract_centris_detailed opener pdf_path) = True
   \<and> errors (extract_centris_detailed opener pdf_path) = []
   \<and> total_properties (extract_centris_detailed opener pdf_path)
       = length (properties (extract_centris_detailed opener pdf_path))"
proof -
  obtain props where p: "extract_pdf_data opener pdf_path = Inr props" "props \<noteq> []"
    using extract_pdf_data_total by blast
  have a: "\<forall>e. extract_body (opener pdf_path) = Inl e \<longrightarrow>
          extract_pdf_data opener pdf_path = Inr [error_property e]"
    by (simp add: extract_pdf_data_cases)
  have b: "\<forall>e. opener pdf_path = Inl e \<longrightarrow> extract_body (opener pdf_path) = Inl e"
    by (simp add: extract_body_def)
  have c: "success (extract_centris_detailed opener pdf_path) = True
           \<and> errors (extract_centris_detailed opener pdf_path) = []
           \<and> total_properties (extract_centris_detailed opener pdf_path)
               = length (properties (extract_centris_detailed opener pdf_path))"
    using p by (simp add: extract_centris_detailed_def)
  show ?thesis using p a b c by blast
qed

theorem extract_pdf_data_never_raises_witness:
  "extract_body ((\<lambda>p. Inl (PyExc ''FileNotFoundError'' ''No such file'')) ''missing.pdf'')
     = Inl (PyExc ''FileNotFoundError'' ''No such file'')
   \<and> extract_pdf_data (\<lambda>p. Inl (PyExc ''FileNotFoundError'' ''No such file'')) ''missing.pdf''
     = Inr [error_property (PyExc ''FileNotFoundError'' ''No such file'')]
   \<and> success (extract_centris_detailed
        (\<lambda>p. Inl (PyExc ''FileNotFoundError'' ''No such file'')) ''missing.pdf'') = True"
  using extract_pdf_data_never_raises
          [of "\<lambda>p. Inl (PyExc ''FileNotFoundError'' ''No such file'')" "''missing.pdf''"]
  by (simp add: extract_body_def)

section \<open>What \<open>extract_pdf_data\<close> returns\<close>

lemmas extract_eval = extract_pdf_data_def extract_body_def Let_def findall.simps regex_defs
  strip_def title_def heuristic_property_def placeholder_property_def sample_addresses_def
  default_sample_prices_def py_int_def int_max_str_digits_def digits_to_nat_def
  decimal_value_def replace_char_def format_comma.simps str_of_nat.simps pad3_def
  digit_char_def error_property_def upt_rec

lemma collect_text_no_text:
  "\<forall>pg \<in> set pgs. pg = Inr None \<or> pg = Inr (Some []) \<Longrightarrow> collect_text pgs acc = Inr acc"
  by (induction pgs arbitrary: acc) auto

lemma find_nothing_in_empty_text:
  "find_addresses [] = [] \<and> find_prices [] = [] \<and> find_types [] = []"
  by (simp add: findall.simps regex_defs)

text \<open>
  The matcher backtracks as Python's does: the greedy name class of the street gives
  back one character so that the second group can match.
\<close>

lemma address_pattern_backtracks:
  "find_addresses ''12 rue ab'' = [(''12 rue a'', ''b'')] \<and> find_addresses ''12 rue a'' = []"
  by (simp add: findall.simps regex_defs)

lemma type_pattern_ignores_case:
  "find_types ''Un CONDO'' = [''CONDO''] \<and> title ''CONDO'' = ''Condo''"
  by (simp add: findall.simps regex_defs title_def ascii_upper_def)

text \<open>
  Claim C5.  When the document opens and its text has at least one address match,
  \<open>extract_pdf_data\<close> returns one record per address match up to the tenth, and the
  \<open>k\<close>-th record is built from the \<open>k\<close>-th address match and the \<open>k\<close>-th price match of
  the whole text (\<open>N/A\<close> when there are fewer price matches), whatever their positions.
\<close>

theorem heuristic_pairs_by_index:
  assumes "opener pdf_path = Inr pgs"
    and "collect_text pgs [] = Inr full_text"
    and "find_addresses full_text \<noteq> []"
  shows "\<exists>props. extract_pdf_data opener pdf_path = Inr props
           \<and> length props = min 10 (length (find_addresses full_text))
           \<and> (\<forall>k < length props.
                 address (props ! k) =
                   strip (fst (find_addresses full_text ! k)) @ '', ''
                     @ strip (snd (find_addresses full_text ! k))
               \<and> price (props ! k) =
                   (if k < length (find_prices full_text) then find_prices full_text ! k
                    else ''N/A'') @ ''$''
               \<and> street (props ! k) = strip (fst (find_addresses full_text ! k))
               \<and> city (props ! k) = strip (snd (find_addresses full_text ! k)))"
proof -
  let ?props = "map (heuristic_property (find_prices full_text) (find_types full_text))
                  (enumerate 0 (take 10 (find_addresses full_text)))"
  have b: "extract_body (opener pdf_path) = Inr ?props"
    using extract_body_heuristic[OF assms] .
  then have r: "extract_pdf_data opener pdf_path = Inr ?props"
    by (simp add: extract_pdf_data_cases)
  have l: "length ?props = min 10 (length (find_addresses full_text))"
    by (simp add: min.commute)
  have "\<forall>k < length ?props.
          address (?props ! k) =
            strip (fst (find_addresses full_text ! k)) @ '', ''
              @ strip (snd (find_addresses full_text ! k))
        \<and> price (?props ! k) =
            (if k < length (find_prices full_text) then find_prices full_text ! k
             else ''N/A'') @ ''$''
        \<and> street (?props ! k) = strip (fst (find_addresses full_text ! k))
        \<and> city (?props ! k) = strip (snd (find_addresses full_text ! k))"
    by (simp add: nth_enumerate_eq heuristic_property_def split_beta)
  with r l show ?thesis by blast
qed

theorem heuristic_pairs_by_index_witness:
  "collect_text [Inr (Some ''1 rue A,B 9 rue C,D'')] [] = Inr (''1 rue A,B 9 rue C,D'' @ [CHR 0x0A])
   \<and> find_addresses (''1 rue A,B 9 rue C,D'' @ [CHR 0x0A])
       = [(''1 rue A'', ''B ''), (''9 rue C'', ''D'' @ [CHR 0x0A])]
   \<and> find_prices (''1 rue A,B 9 rue C,D'' @ [CHR 0x0A]) = [''1'', ''9'']
   \<and> (\<exists>props. extract_pdf_data (\<lambda>p. Inr [Inr (Some ''1 rue A,B 9 rue C,D'')]) ''a.pdf''
                 = Inr props
         \<and> length props = 2
         \<and> address (props ! 0) = ''1 rue A, B'' \<and> price (props ! 0) = ''1$''
         \<and> address (props ! 1) = ''9 rue C, D'' \<and> price (props ! 1) = ''9$'')"
proof -
  let ?opener = "\<lambda>p::string. Inr [Inr (Some ''1 rue A,B 9 rue C,D'')] :: pdf_source"
  let ?text = "''1 rue A,B 9 rue C,D'' @ [CHR 0x0A]"
  have c: "collect_text [Inr (Some ''1 rue A,B 9 rue C,D'')] [] = Inr ?text"
    by simp
  have a: "find_addresses ?text = [(''1 rue A'', ''B ''), (''9 rue C'', ''D'' @ [CHR 0x0A])]"
    by (simp add: findall.simps regex_defs)
  have p: "find_prices ?text = [''1'', ''9'']"
    by (simp add: findall.simps regex_defs)
  have ne: "find_addresses ?text \<noteq> []"
    using a by simp
  obtain props where props: "extract_pdf_data ?opener ''a.pdf'' = Inr props"
      "length props = min 10 (length (find_addresses ?text))"
      "\<forall>k < length props.
                 address (props ! k) =
                   strip (fst (find_addresses ?text ! k)) @ '', ''
                     @ strip (snd (find_addresses ?text ! k))
               \<and> price (props ! k) =
                   (if k < length (find_prices ?text) then find_prices ?text ! k
                    else ''N/A'') @ ''$''
               \<and> street (props ! k) = strip (fst (find_addresses ?text ! k))
               \<and> city (props ! k) = strip (snd (find_addresses ?text ! k))"
    using heuristic_pairs_by_index
            [of ?opener "''a.pdf''" "[Inr (Some ''1 rue A,B 9 rue C,D'')]" ?text, OF refl c ne]
    by blast
  have len: "length props = 2"
    using props(2) unfolding a by simp
  have k0: "address (props ! 0) = ''1 rue A, B'' \<and> price (props ! 0) = ''1$''"
    using props(3) len unfolding a p by (simp add: strip_def is_space_def)
  have k1: "address (props ! 1) = ''9 rue C, D'' \<and> price (props ! 1) = ''9$''"
    using props(3) len unfolding a p by (simp add: strip_def is_space_def)
  show ?thesis
    using c a p props(1) len k0 k1 by blast
qed


lemma extract_body_without_addresses:
  assumes "src = Inr pgs" and "collect_text pgs [] = Inr full_text"
    and "find_addresses full_text = []"
    and "list_all (\<lambda>p. length (filter is_decimal p) \<le> int_max_str_digits)
           (take 3 (find_prices full_text))"
  shows "extract_body src =
         Inr (map (placeholder_property
                     (let found = map reformatted_amount
                                    (filter (\<lambda>p. 4 \<le> length (filter is_decimal p))
                                       (take 3 (find_prices full_text)))
                      in if found = [] then default_sample_prices else found))
                [0, 1, 2])"
  using extract_body_placeholder[OF assms(1,2,3), of "map reformatted_amount
          (filter (\<lambda>p. 4 \<le> length (filter is_decimal p)) (take 3 (find_prices full_text)))"]
    sample_prices_loop_within_limit[OF assms(4), of "[]"]
  by (simp add: Let_def)

text \<open>
  The other way out of the placeholder branch: a price match of more digits than
  \<open>int()\<close> takes, among the first three, leaves the single error entry.
\<close>

lemma placeholder_branch_over_limit:
  assumes "opener pdf_path = Inr pgs" and "collect_text pgs [] = Inr full_text"
    and "find_addresses full_text = []"
    and "find (\<lambda>p. int_max_str_digits < length (filter is_decimal p))
           (take 3 (find_prices full_text)) = Some p"
  shows "extract_pdf_data opener pdf_path
         = Inr [error_property (int_limit_error (length (filter is_decimal p)))]"
proof -
  have "sample_prices_loop (take 3 (find_prices full_text)) []
          = Inl (int_limit_error (length (filter is_decimal p)))"
    using assms(4) by (simp add: sample_prices_loop_eq)
  then have "extract_body (opener pdf_path)
          = Inl (int_limit_error (length (filter is_decimal p)))"
    using extract_body_placeholder_raises[OF assms(1,2,3)] by simp
  then show ?thesis by (simp add: extract_pdf_data_cases)
qed

lemma less_three: "k < 3 \<Longrightarrow> k = 0 \<or> k = 1 \<or> k = (2::nat)"
  by arith

lemma placeholder_fields:
  assumes "k < 3"
  shows "address (map (placeholder_property sp) [0, 1, 2] ! k) = sample_addresses ! k
       \<and> type (map (placeholder_property sp) [0, 1, 2] ! k)
           = ''Propri'' @ e_acute @ ''t'' @ e_acute @ '' extraite''
       \<and> city (map (placeholder_property sp) [0, 1, 2] ! k)
           = ''Ville d'' @ e_acute @ ''tect'' @ e_acute @ ''e''
       \<and> street (map (placeholder_property sp) [0, 1, 2] ! k) = ''Rue '' @ str_of_nat (k + 1)
       \<and> price (map (placeholder_property sp) [0, 1, 2] ! k)
           = (if k < length sp then sp ! k else ''Prix N/A'')"
proof -
  from assms have "k = 0 \<or> k = 1 \<or> k = 2" by (rule less_three)
  then show ?thesis
    by (elim disjE) (simp_all add: placeholder_property_def)
qed

text \<open>
  Claim C6, as amended.  When the document opens and its text has no address match,
  \<open>extract_pdf_data\<close> returns at most three records and never an empty list.  When,
  besides, none of the first three price matches has more than 4300 digits, it returns
  exactly three records: their address, type, city and street are fixed literals that
  do not depend on the document (the three \<open>sample_addresses\<close>, one type, one city,
  \<open>Rue 1\<close> to \<open>Rue 3\<close>); the price is an amount found in the document, regrouped, when
  one of the first three price matches has four digits or more, and a fixed literal
  otherwise.
\<close>

theorem placeholder_records:
  assumes "opener pdf_path = Inr pgs"
    and "collect_text pgs [] = Inr full_text"
    and "find_addresses full_text = []"
  shows "\<exists>props. extract_pdf_data opener pdf_path = Inr props
           \<and> props \<noteq> [] \<and> length props \<le> 3
           \<and> (list_all (\<lambda>p. length (filter is_decimal p) \<le> int_max_str_digits)
                 (take 3 (find_prices full_text)) \<longrightarrow>
               length props = 3
               \<and> (\<forall>k < 3.
                     address (props ! k) = sample_addresses ! k
                   \<and> type (props ! k) = ''Propri'' @ e_acute @ ''t'' @ e_acute @ '' extraite''
                   \<and> city (props ! k) = ''Ville d'' @ e_acute @ ''tect'' @ e_acute @ ''e''
                   \<and> street (props ! k) = ''Rue '' @ str_of_nat (k + 1)
                   \<and> price (props ! k) =
                       (let found = map reformatted_amount
                                      (filter (\<lambda>p. 4 \<le> length (filter is_decimal p))
                                         (take 3 (find_prices full_text)))
                        in if found = [] then default_sample_prices ! k
                           else if k < length found then found ! k
                           else ''Prix N/A'')))"
proof (cases "list_all (\<lambda>p. length (filter is_decimal p) \<le> int_max_str_digits)
                 (take 3 (find_prices full_text))")
  case True
  let ?found = "map reformatted_amount
                  (filter (\<lambda>p. 4 \<le> length (filter is_decimal p))
                     (take 3 (find_prices full_text)))"
  let ?sp = "if ?found = [] then default_sample_prices else ?found"
  let ?props = "map (placeholder_property ?sp) [0, 1, 2]"
  have "extract_body (opener pdf_path) = Inr ?props"
    using extract_body_without_addresses[OF assms True] by (simp add: Let_def)
  then have r: "extract_pdf_data opener pdf_path = Inr ?props"
    by (simp add: extract_pdf_data_cases)
  have l: "length ?props = 3" by simp
  have d: "length default_sample_prices = 3 \<and> default_sample_prices \<noteq> []"
    by (simp add: default_sample_prices_def)
  have "\<forall>k < 3.
          address (?props ! k) = sample_addresses ! k
        \<and> type (?props ! k) = ''Propri'' @ e_acute @ ''t'' @ e_acute @ '' extraite''
        \<and> city (?props ! k) = ''Ville d'' @ e_acute @ ''tect'' @ e_acute @ ''e''
        \<and> street (?props ! k) = ''Rue '' @ str_of_nat (k + 1)
        \<and> price (?props ! k) =
            (let found = ?found
             in if found = [] then default_sample_prices ! k
                else if k < length found then found ! k
                else ''Prix N/A'')"
  proof (intro allI impI)
    fix k :: nat assume k: "k < 3"
    show "address (?props ! k) = sample_addresses ! k
        \<and> type (?props ! k) = ''Propri'' @ e_acute @ ''t'' @ e_acute @ '' extraite''
        \<and> city (?props ! k) = ''Ville d'' @ e_acute @ ''tect'' @ e_acute @ ''e''
        \<and> street (?props ! k) = ''Rue '' @ str_of_nat (k + 1)
        \<and> price (?props ! k) =
            (let found = ?found
             in if found = [] then default_sample_prices ! k
                else if k < length found then found ! k
                else ''Prix N/A'')"
      using placeholder_fields[OF k, of ?sp] d k by (simp add: Let_def)
  qed
  with r l show ?thesis by (intro exI[of _ ?props]) simp
next
  case False
  obtain props where p: "extract_pdf_data opener pdf_path = Inr props" "props \<noteq> []"
    using extract_pdf_data_total by blast
  have "length props \<le> 3"
  proof (cases "sample_prices_loop (take 3 (find_prices full_text)) []")
    case (Inl e)
    then have "extract_body (opener pdf_path) = Inl e"
      using extract_body_placeholder_raises[OF assms] by simp
    then have "extract_pdf_data opener pdf_path = Inr [error_property e]"
      by (simp add: extract_pdf_data_cases)
    with p show ?thesis by auto
  next
    case (Inr found)
    then have "extract_body (opener pdf_path)
                 = Inr (map (placeholder_property
                          (if found = [] then default_sample_prices else found)) [0, 1, 2])"
      using extract_body_placeholder[OF assms] by simp
    then have "extract_pdf_data opener pdf_path
                 = Inr (map (placeholder_property
                          (if found = [] then default_sample_prices else found)) [0, 1, 2])"
      by (simp add: extract_pdf_data_cases)
    with p show ?thesis by auto
  qed
  with p False show ?thesis by blast
qed

theorem placeholder_records_witness:
  "collect_text [Inr (Some ''9 000'')] [] = Inr (''9 000'' @ [CHR 0x0A])
   \<and> find_addresses (''9 000'' @ [CHR 0x0A]) = []
   \<and> find_prices (''9 000'' @ [CHR 0x0A]) = [''9 000'']
   \<and> list_all (\<lambda>p. length (filter is_decimal p) \<le> int_max_str_digits)
         (take 3 (find_prices (''9 000'' @ [CHR 0x0A])))
   \<and> (\<exists>props. extract_pdf_data (\<lambda>p. Inr [Inr (Some ''9 000'')]) ''a.pdf'' = Inr props
         \<and> length props = 3
         \<and> address (props ! 0) = ''Adresse extraite du PDF''
         \<and> price (props ! 0) = ''9 000$''
         \<and> price (props ! 1) = ''Prix N/A''
         \<and> street (props ! 2) = ''Rue 3'')"
proof -
  let ?opener = "\<lambda>p::string. Inr [Inr (Some ''9 000'')] :: pdf_source"
  let ?text = "''9 000'' @ [CHR 0x0A]"
  have c: "collect_text [Inr (Some ''9 000'')] [] = Inr ?text"
    by simp
  have a: "find_addresses ?text = []"
    by (simp add: findall.simps regex_defs)
  have p: "find_prices ?text = [''9 000'']"
    by (simp add: findall.simps regex_defs)
  have w: "list_all (\<lambda>p. length (filter is_decimal p) \<le> int_max_str_digits)
             (take 3 (find_prices ?text))"
    unfolding p by (simp add: is_decimal_def int_max_str_digits_def)
  have f: "map reformatted_amount
             (filter (\<lambda>p. 4 \<le> length (filter is_decimal p)) (take 3 (find_prices ?text)))
           = [''9 000$'']"
    unfolding p
    by (simp add: reformatted_amount_def is_decimal_def digits_to_nat_def decimal_value_def
          groups_of_three_from_right.simps str_of_nat.simps digit_char_def)
  obtain props where props: "extract_pdf_data ?opener ''a.pdf'' = Inr props"
      "length props = 3"
      "\<forall>k < 3.
                 address (props ! k) = sample_addresses ! k
               \<and> type (props ! k) = ''Propri'' @ e_acute @ ''t'' @ e_acute @ '' extraite''
               \<and> city (props ! k) = ''Ville d'' @ e_acute @ ''tect'' @ e_acute @ ''e''
               \<and> street (props ! k) = ''Rue '' @ str_of_nat (k + 1)
               \<and> price (props ! k) =
                   (let found = map reformatted_amount
                                  (filter (\<lambda>p. 4 \<le> length (filter is_decimal p))
                                     (take 3 (find_prices ?text)))
                    in if found = [] then default_sample_prices ! k
                       else if k < length found then found ! k
                       else ''Prix N/A'')"
    using placeholder_records[of ?opener "''a.pdf''" "[Inr (Some ''9 000'')]" ?text, OF refl c a]
      w
    by blast
  have k0: "address (props ! 0) = ''Adresse extraite du PDF'' \<and> price (props ! 0) = ''9 000$''"
    using props(3) unfolding f by (simp add: sample_addresses_def)
  have k1: "price (props ! 1) = ''Prix N/A''"
    using props(3) unfolding f by simp
  have k2: "street (props ! 2) = ''Rue 3''"
    using props(3) by (simp add: str_of_nat.simps digit_char_def)
  show ?thesis
    using c a p w props(1) props(2) k0 k1 k2 by blast
qed

text \<open>
  Claim C6 as written fails where the text holds an amount: the document whose only
  text is \<open>1 000\<close> has no address match, and the first of its three placeholder records
  carries the price \<open>1 000$\<close>, a value taken from the document, next to the address
  \<open>Adresse extraite du PDF\<close>.
\<close>

theorem placeholder_price_from_document:
  "extract_pdf_data (\<lambda>p. Inr [Inr (Some ''1 000'')]) ''a.pdf''
   = Inr [\<lparr> address = ''Adresse extraite du PDF'', price = ''1 000$'',
             type = ''Propri'' @ e_acute @ ''t'' @ e_acute @ '' extraite'',
             city = ''Ville d'' @ e_acute @ ''tect'' @ e_acute @ ''e'',
             street = ''Rue 1'' \<rparr>,
          \<lparr> address = ''Propri'' @ e_acute @ ''t'' @ e_acute @ '' identifi'' @ e_acute @ ''e'',
             price = ''Prix N/A'',
             type = ''Propri'' @ e_acute @ ''t'' @ e_acute @ '' extraite'',
             city = ''Ville d'' @ e_acute @ ''tect'' @ e_acute @ ''e'',
             street = ''Rue 2'' \<rparr>,
          \<lparr> address = ''Bien immobilier trouv'' @ e_acute,
             price = ''Prix N/A'',
             type = ''Propri'' @ e_acute @ ''t'' @ e_acute @ '' extraite'',
             city = ''Ville d'' @ e_acute @ ''tect'' @ e_acute @ ''e'',
             street = ''Rue 3'' \<rparr>]"
  by (simp add: extract_eval)


lemma message_key_not_a_column: "''MessageErreur'' \<notin> set columns_order"
  by (simp add: columns_order_def accents)

text \<open>
  Claim C4, as amended.  When the wrapped extractor raises,
  \<open>extract_to_original_format\<close> returns no record and exactly one error entry, which
  names the file and carries the cause; its error entries are a list of their own, and
  no record of the data list has the key \<open>MessageErreur\<close>.  \<open>extract_pdf_data\<close> has no
  separate error list: when the document cannot be opened it returns a list of one
  entry, shaped like a record, with type \<open>Erreur\<close> and the cause in its address.
\<close>

theorem open_failure_entries:
  "extract_to_original_format (Inl e) name
     = ([], [[(''NomFichier'', name),
              (''MessageErreur'', ''Erreur extraction PDF: '' @ exc_str e)]])
   \<and> (\<forall>r \<in> set (fst (extract_to_original_format res name)).
         ''MessageErreur'' \<notin> set (map fst r))
   \<and> (opener pdf_path = Inl e \<longrightarrow>
         extract_pdf_data opener pdf_path = Inr [error_property e])
   \<and> address (error_property e)
       = ''Erreur lors de l'' @ [CHR 0x27] @ ''extraction: '' @ exc_str e
   \<and> type (error_property e) = ''Erreur''"
proof -
  have a: "extract_to_original_format (Inl e) name
     = ([], [[(''NomFichier'', name),
              (''MessageErreur'', ''Erreur extraction PDF: '' @ exc_str e)]])"
    by (simp add: extract_to_original_format_def)
  have b: "\<forall>r \<in> set (fst (extract_to_original_format res name)).
         ''MessageErreur'' \<notin> set (map fst r)"
    using extract_data_keys[of _ res name] message_key_not_a_column by metis
  have c: "opener pdf_path = Inl e \<longrightarrow>
         extract_pdf_data opener pdf_path = Inr [error_property e]"
    by (simp add: extract_pdf_data_cases extract_body_def)
  have d: "address (error_property e)
       = ''Erreur lors de l'' @ [CHR 0x27] @ ''extraction: '' @ exc_str e
   \<and> type (error_property e) = ''Erreur''"
    by (simp add: error_property_def)
  show ?thesis using a b c d by blast
qed

theorem open_failure_entries_witness:
  "extract_to_original_format (Inl (PyExc ''PDFSyntaxError'' ''No /Root object!'')) ''rapport.pdf''
     = ([], [[(''NomFichier'', ''rapport.pdf''),
              (''MessageErreur'', ''Erreur extraction PDF: No /Root object!'')]])
   \<and> fst (extract_to_original_format (Inr [[''Quartier'' \<mapsto> ''Rosemont'']]) ''rapport.pdf'') \<noteq> []
   \<and> ''MessageErreur'' \<notin> set (map fst (hd (fst (extract_to_original_format
          (Inr [[''Quartier'' \<mapsto> ''Rosemont'']]) ''rapport.pdf''))))
   \<and> extract_pdf_data (\<lambda>p. Inl (PyExc ''PDFSyntaxError'' ''No /Root object!'')) ''rapport.pdf''
       = Inr [error_property (PyExc ''PDFSyntaxError'' ''No /Root object!'')]"
proof -
  let ?e = "PyExc ''PDFSyntaxError'' ''No /Root object!''"
  let ?res = "Inr [[''Quartier'' \<mapsto> ''Rosemont'']] :: py_exception + raw_record list"
  let ?opener = "\<lambda>p::string. Inl ?e :: pdf_source"
  note t = open_failure_entries[of ?e "''rapport.pdf''" ?res ?opener "''rapport.pdf''"]
  have n: "fst (extract_to_original_format ?res ''rapport.pdf'') \<noteq> []"
    by (simp add: extract_to_original_format_def format_record_def)
  then have "hd (fst (extract_to_original_format ?res ''rapport.pdf''))
               \<in> set (fst (extract_to_original_format ?res ''rapport.pdf''))"
    by simp
  then have m: "''MessageErreur'' \<notin> set (map fst (hd (fst (extract_to_original_format
          ?res ''rapport.pdf''))))"
    using t by blast
  have x: "extract_pdf_data ?opener ''rapport.pdf'' = Inr [error_property ?e]"
    using t by simp
  have y: "extract_to_original_format (Inl ?e) ''rapport.pdf''
     = ([], [[(''NomFichier'', ''rapport.pdf''),
              (''MessageErreur'', ''Erreur extraction PDF: No /Root object!'')]])"
    using t by simp
  show ?thesis using n m x y by blast
qed

text \<open>
  Claim C4 as written fails on \<open>extract_pdf_data\<close>: for a file the PDF library cannot
  parse, the returned sequence is not empty; its one element is the error, and it does
  not name the file.
\<close>

theorem open_failure_inside_records:
  "extract_pdf_data (\<lambda>p. Inl (PyExc ''PDFSyntaxError'' ''No /Root object!'')) ''rapport.pdf''
   = Inr [\<lparr> address = ''Erreur lors de l'' @ [CHR 0x27] @ ''extraction: No /Root object!'',
             price = ''N/A'', type = ''Erreur'', city = ''N/A'', street = ''N/A'' \<rparr>]"
  by (simp add: extract_pdf_data_def extract_body_def error_property_def)

text \<open>
  Claim C7, as amended.  A document that opens and whose pages all yield no text
  (\<open>None\<close> or the empty string) makes \<open>extract_pdf_data\<close> return the three placeholder
  records with the default prices: no exception, no error entry, and not an empty
  sequence.  \<open>extract_to_original_format\<close> answers an empty result of the wrapped
  extractor with one error entry for the file and no record.
\<close>

theorem empty_text_document:
  "((opener pdf_path = Inr pgs \<and> (\<forall>pg \<in> set pgs. pg = Inr None \<or> pg = Inr (Some [])))
      \<longrightarrow> extract_pdf_data opener pdf_path
            = Inr (map (placeholder_property default_sample_prices) [0, 1, 2]))
   \<and> extract_to_original_format (Inr []) name
       = ([], [[(''NomFichier'', name),
                (''MessageErreur'', ''Aucune donn'' @ e_acute @ ''e extraite du PDF'')]])"
proof -
  have a: "(opener pdf_path = Inr pgs \<and> (\<forall>pg \<in> set pgs. pg = Inr None \<or> pg = Inr (Some [])))
      \<longrightarrow> extract_pdf_data opener pdf_path
            = Inr (map (placeholder_property default_sample_prices) [0, 1, 2])"
  proof
    assume h: "opener pdf_path = Inr pgs
               \<and> (\<forall>pg \<in> set pgs. pg = Inr None \<or> pg = Inr (Some []))"
    then have o: "opener pdf_path = Inr pgs" and c: "collect_text pgs [] = Inr []"
      by (simp_all add: collect_text_no_text)
    have f: "find_addresses [] = []" using find_nothing_in_empty_text by simp
    have w: "list_all (\<lambda>p. length (filter is_decimal p) \<le> int_max_str_digits)
               (take 3 (find_prices []))"
      using find_nothing_in_empty_text by simp
    have "extract_body (opener pdf_path)
            = Inr (map (placeholder_property default_sample_prices) [0, 1, 2])"
      using extract_body_without_addresses[OF o c f w] find_nothing_in_empty_text
      by (simp add: Let_def)
    then show "extract_pdf_data opener pdf_path
            = Inr (map (placeholder_property default_sample_prices) [0, 1, 2])"
      by (simp add: extract_pdf_data_cases)
  qed
  have b: "extract_to_original_format (Inr []) name
       = ([], [[(''NomFichier'', name),
                (''MessageErreur'', ''Aucune donn'' @ e_acute @ ''e extraite du PDF'')]])"
    by (simp add: extract_to_original_format_def)
  show ?thesis using a b by blast
qed

theorem empty_text_document_witness:
  "(\<lambda>p. Inr [Inr None, Inr (Some [])]) ''vide.pdf'' = (Inr [Inr None, Inr (Some [])] :: pdf_source)
   \<and> list_all (\<lambda>pg. pg = Inr None \<or> pg = Inr (Some [])) [Inr None, Inr (Some [])]
   \<and> extract_pdf_data (\<lambda>p. Inr [Inr None, Inr (Some [])]) ''vide.pdf''
       = Inr (map (placeholder_property default_sample_prices) [0, 1, 2])"
  using empty_text_document[of "\<lambda>p. Inr [Inr None, Inr (Some [])]" "''vide.pdf''"
          "[Inr None, Inr (Some [])]"]
  by simp

text \<open>
  Claim C7 as written fails on \<open>extract_pdf_data\<close>: a two-page document without any
  text yields three records and no error entry.
\<close>

theorem empty_text_yields_placeholders:
  "extract_pdf_data (\<lambda>p. Inr [Inr (Some []), Inr None]) ''vide.pdf''
   = Inr [\<lparr> address = ''Adresse extraite du PDF'',
             price = ''Prix '' @ a_grave @ '' d'' @ e_acute @ ''terminer'',
             type = ''Propri'' @ e_acute @ ''t'' @ e_acute @ '' extraite'',
             city = ''Ville d'' @ e_acute @ ''tect'' @ e_acute @ ''e'',
             street = ''Rue 1'' \<rparr>,
          \<lparr> address = ''Propri'' @ e_acute @ ''t'' @ e_acute @ '' identifi'' @ e_acute @ ''e'',
             price = ''Voir document'',
             type = ''Propri'' @ e_acute @ ''t'' @ e_acute @ '' extraite'',
             city = ''Ville d'' @ e_acute @ ''tect'' @ e_acute @ ''e'',
             street = ''Rue 2'' \<rparr>,
          \<lparr> address = ''Bien immobilier trouv'' @ e_acute,
             price = ''Contact requis'',
             type = ''Propri'' @ e_acute @ ''t'' @ e_acute @ '' extraite'',
             city = ''Ville d'' @ e_acute @ ''tect'' @ e_acute @ ''e'',
             street = ''Rue 3'' \<rparr>]"
  by (simp add: extract_eval)

section \<open>The export\<close>

lemma error_sheet_rows: "length (rows (error_sheet errs)) = length errs"
  by (simp add: error_sheet_def Let_def)

lemma data_sheet_rows:
  "length (rows (data_sheet data)) = length data \<and> header (data_sheet data) = columns_order
   \<and> list_all (\<lambda>row. length row = length columns_order) (rows (data_sheet data))"
  by (simp add: data_sheet_def Let_def list_all_iff)

text \<open>
  Claim C8, as amended.  \<open>export_to_xlsx_original\<close> returns \<open>True\<close> with the workbook
  when the write goes through and \<open>False\<close> without one when it fails; it raises in
  neither case.  With records and no errors the workbook has exactly one sheet, the
  data sheet with the declared columns and one row per record.  With records and
  errors it has exactly two sheets, the second being \<open>Erreurs\<close> with one row per error
  entry.  With errors and no record it has exactly one sheet, \<open>Erreurs\<close>, with one row
  per error entry.
\<close>

theorem export_sheets:
  "\<exists>sheets.
      (write_file sheets \<longrightarrow> export_to_xlsx_original write_file data errs = (True, Some sheets))
    \<and> (\<not> write_file sheets \<longrightarrow> export_to_xlsx_original write_file data errs = (False, None))
    \<and> (data \<noteq> [] \<and> errs = [] \<longrightarrow>
          length sheets = 1 \<and> sheet_name (sheets ! 0) = ''Sheet1''
          \<and> header (sheets ! 0) = columns_order
          \<and> length (rows (sheets ! 0)) = length data)
    \<and> (data \<noteq> [] \<and> errs \<noteq> [] \<longrightarrow>
          length sheets = 2 \<and> sheet_name (sheets ! 0) = ''Sheet1''
          \<and> sheet_name (sheets ! 1) = ''Erreurs''
          \<and> length (rows (sheets ! 1)) = length errs)
    \<and> (data = [] \<and> errs \<noteq> [] \<longrightarrow>
          length sheets = 1 \<and> sheet_name (sheets ! 0) = ''Erreurs''
          \<and> length (rows (sheets ! 0)) = length errs)"
proof -
  let ?sheets = "(if data \<noteq> [] then [data_sheet data] else [])
                 @ (if errs \<noteq> [] then [error_sheet errs] else [])"
  have a: "write_file ?sheets \<longrightarrow>
             export_to_xlsx_original write_file data errs = (True, Some ?sheets)"
    by (simp add: export_to_xlsx_original_def Let_def)
  have b: "\<not> write_file ?sheets \<longrightarrow>
             export_to_xlsx_original write_file data errs = (False, None)"
    by (simp add: export_to_xlsx_original_def Let_def)
  have n1: "sheet_name (data_sheet data) = ''Sheet1''"
    by (simp add: data_sheet_def Let_def)
  have n2: "sheet_name (error_sheet errs) = ''Erreurs''"
    by (simp add: error_sheet_def Let_def)
  have c: "data \<noteq> [] \<and> errs = [] \<longrightarrow>
          length ?sheets = 1 \<and> sheet_name (?sheets ! 0) = ''Sheet1''
          \<and> header (?sheets ! 0) = columns_order
          \<and> length (rows (?sheets ! 0)) = length data"
    using n1 data_sheet_rows[of data] by simp
  have d: "data \<noteq> [] \<and> errs \<noteq> [] \<longrightarrow>
          length ?sheets = 2 \<and> sheet_name (?sheets ! 0) = ''Sheet1''
          \<and> sheet_name (?sheets ! 1) = ''Erreurs''
          \<and> length (rows (?sheets ! 1)) = length errs"
    using n1 n2 error_sheet_rows[of errs] by simp
  have e: "data = [] \<and> errs \<noteq> [] \<longrightarrow>
          length ?sheets = 1 \<and> sheet_name (?sheets ! 0) = ''Erreurs''
          \<and> length (rows (?sheets ! 0)) = length errs"
    using n2 error_sheet_rows[of errs] by simp
  show ?thesis
    using a b c d e by (intro exI[of _ ?sheets]) blast
qed

theorem export_sheets_witness:
  "export_to_xlsx_original (\<lambda>wb. True)
      [[(''Centris #'', ''12345678''), (''Quartier'', ''Rosemont'')]]
      [[(''NomFichier'', ''rapport.pdf''), (''Centris #'', ''N/A''), (''MessageErreur'', ''Erreur formatage: x'')],
       [(''NomFichier'', ''rapport.pdf''), (''MessageErreur'', ''y'')]]
   = (True, Some
       [data_sheet [[(''Centris #'', ''12345678''), (''Quartier'', ''Rosemont'')]],
        \<lparr> sheet_name = ''Erreurs'',
          header = [''NomFichier'', ''Centris #'', ''MessageErreur''],
          rows = [[Some ''rapport.pdf'', Some ''N/A'', Some ''Erreur formatage: x''],
                  [Some ''rapport.pdf'', None, Some ''y'']],
          column_widths = None \<rparr>])
   \<and> export_to_xlsx_original (\<lambda>wb. False)
      [[(''Centris #'', ''12345678''), (''Quartier'', ''Rosemont'')]] []
   = (False, None)"
  using export_sheets[of "\<lambda>wb. True"
          "[[(''Centris #'', ''12345678''), (''Quartier'', ''Rosemont'')]]"
          "[[(''NomFichier'', ''rapport.pdf''), (''Centris #'', ''N/A''), (''MessageErreur'', ''Erreur formatage: x'')],
            [(''NomFichier'', ''rapport.pdf''), (''MessageErreur'', ''y'')]]"]
  by (simp add: export_to_xlsx_original_def Let_def error_sheet_def dataframe_columns_def)

text \<open>
  Claim C8 as written fails when there is no record: the result of a document-level
  failure, no record and one error entry, is exported to a workbook of one sheet, not
  two.
\<close>

theorem export_errors_only_one_sheet:
  "export_to_xlsx_original (\<lambda>wb. True) []
      [[(''NomFichier'', ''rapport.pdf''),
        (''MessageErreur'', ''Erreur extraction PDF: No /Root object!'')]]
   = (True, Some
       [\<lparr> sheet_name = ''Erreurs'',
          header = [''NomFichier'', ''MessageErreur''],
          rows = [[Some ''rapport.pdf'', Some ''Erreur extraction PDF: No /Root object!'']],
          column_widths = None \<rparr>])"
  by (simp add: export_to_xlsx_original_def Let_def error_sheet_def dataframe_columns_def)

section \<open>The upload handler\<close>

text \<open>
  Claim C9.  An upload whose file name does not end in \<open>.pdf\<close> (or has no name), or
  whose size is above 10 MB, is answered with an error before anything else happens:
  the upload is not read, no temporary file is written and the extraction does not
  run.  The status is 400 for the name and 413 for the size (500 for a missing name),
  never 422; and 422, the status of a failed extraction, is only ever answered after
  the extraction ran.
\<close>

theorem invalid_upload_rejected:
  assumes "file_name file = None
           \<or> (\<exists>f. file_name file = Some f \<and> \<not> endswith f ''.pdf'')
           \<or> (\<exists>n. file_size file = Some n \<and> n > 10 * 1024 * 1024)"
  shows "\<exists>status detail.
           extract_pdf env file = (HTTPException status detail, [])
         \<and> status \<noteq> 422
         \<and> (file_name file = None \<longrightarrow> status = 500)
         \<and> (\<forall>f. file_name file = Some f \<and> \<not> endswith f ''.pdf'' \<longrightarrow> status = 400)
         \<and> (\<forall>f. file_name file = Some f \<and> endswith f ''.pdf'' \<longrightarrow> status = 413)
         \<and> (\<forall>env' file' detail' effects.
               extract_pdf env' file' = (HTTPException 422 detail', effects)
               \<longrightarrow> RunExtraction \<in> set effects)"
proof -
  have late: "\<forall>env' file' detail' effects.
               extract_pdf env' file' = (HTTPException 422 detail', effects)
               \<longrightarrow> RunExtraction \<in> set effects"
    by (auto simp: extract_pdf_def split: option.splits if_splits sum.splits)
  show ?thesis
  proof (cases "file_name file")
    case None
    then show ?thesis using late by (simp add: extract_pdf_def)
  next
    case (Some f)
    show ?thesis
    proof (cases "endswith f ''.pdf''")
      case False
      with Some show ?thesis using late by (simp add: extract_pdf_def)
    next
      case True
      with Some assms obtain n where "file_size file = Some n" "n > 10 * 1024 * 1024"
        by auto
      with Some True show ?thesis using late by (simp add: extract_pdf_def max_upload_size_def)
    qed
  qed
qed

theorem invalid_upload_rejected_witness:
  "\<not> endswith ''notes.txt'' ''.pdf''
   \<and> extract_pdf \<lparr> write_temp = (\<lambda>content. Inr ''/tmp/tmpab12.pdf''), open_pdf = (\<lambda>p. Inr []) \<rparr>
         \<lparr> file_name = Some ''notes.txt'', file_size = Some 2048, file_read = Inr ''hello'' \<rparr>
       = (HTTPException 400 ''File must be a PDF'', [])
   \<and> endswith ''big.pdf'' ''.pdf''
   \<and> (20971520::nat) > 10 * 1024 * 1024
   \<and> extract_pdf \<lparr> write_temp = (\<lambda>content. Inr ''/tmp/tmpab12.pdf''), open_pdf = (\<lambda>p. Inr []) \<rparr>
         \<lparr> file_name = Some ''big.pdf'', file_size = Some 20971520, file_read = Inr ''%PDF'' \<rparr>
       = (HTTPException 413 ''File too large. Maximum size is 10MB'', [])"
proof -
  let ?env = "\<lparr> write_temp = (\<lambda>content::string. Inr ''/tmp/tmpab12.pdf'' :: py_exception + string),
                 open_pdf = (\<lambda>p::string. Inr [] :: pdf_source) \<rparr>"
  let ?txt = "\<lparr> file_name = Some ''notes.txt'', file_size = Some 2048,
                 file_read = Inr ''hello'' \<rparr>"
  let ?big = "\<lparr> file_name = Some ''big.pdf'', file_size = Some 20971520,
                 file_read = Inr ''%PDF'' \<rparr>"
  have n: "\<not> endswith ''notes.txt'' ''.pdf''"
    by (simp add: endswith_def)
  have b: "endswith ''big.pdf'' ''.pdf''"
    by (simp add: endswith_def)
  have "file_name ?txt = None
        \<or> (\<exists>f. file_name ?txt = Some f \<and> \<not> endswith f ''.pdf'')
        \<or> (\<exists>n. file_size ?txt = Some n \<and> n > 10 * 1024 * 1024)"
    using n by simp
  from invalid_upload_rejected[OF this, of ?env]
  obtain status detail where
    t: "extract_pdf ?env ?txt = (HTTPException status detail, [])" "status = 400"
    using n by auto
  have "file_name ?big = None
        \<or> (\<exists>f. file_name ?big = Some f \<and> \<not> endswith f ''.pdf'')
        \<or> (\<exists>n. file_size ?big = Some n \<and> n > 10 * 1024 * 1024)"
    by simp
  from invalid_upload_rejected[OF this, of ?env]
  obtain status' detail' where
    g: "extract_pdf ?env ?big = (HTTPException status' detail', [])" "status' = 413"
    using b by auto
  have t': "extract_pdf ?env ?txt = (HTTPException 400 ''File must be a PDF'', [])"
    using t n by (simp add: extract_pdf_def)
  have g': "extract_pdf ?env ?big
              = (HTTPException 413 ''File too large. Maximum size is 10MB'', [])"
    using g b by (simp add: extract_pdf_def max_upload_size_def)
  show ?thesis using n b t' g' by simp
qed

end
